theory Spec2Isabelle
  imports Complex_Main
begin

section \<open>Strings and the Unicode predicates of the host language\<close>

text \<open>
  A Python \<open>str\<close> is a sequence of Unicode code points, so it is modelled as a list of
  natural numbers. ASCII literals of the source are embedded with \<open>asc\<close>; code points
  beyond ASCII are written as numbers (for instance 227 for a-tilde).
\<close>

type_synonym pystr = "nat list"

definition asc :: "string \<Rightarrow> pystr" where
  "asc s = map (of_char :: char \<Rightarrow> nat) s"

text \<open>
  \<open>str.lower\<close>, \<open>str.isspace\<close> (used by \<open>str.split\<close>) and \<open>str.isdigit\<close> are builtins
  that read the Unicode character database. The database is not part of the repository,
  so it is a parameter of the model. \<open>lower_cp\<close> gives the lowercase mapping of one code
  point, which may be several code points.
\<close>

record unicode_db =
  lower_cp :: "nat \<Rightarrow> nat list"
  isspace_cp :: "nat \<Rightarrow> bool"
  isdigit_cp :: "nat \<Rightarrow> bool"

definition py_lower :: "unicode_db \<Rightarrow> pystr \<Rightarrow> pystr" where
  "py_lower db s = concat (map (lower_cp db) s)"

text \<open>
  \<open>s.split()\<close> without arguments: maximal runs of non-whitespace code points, in order;
  \<open>cur\<close> is the word being read.
\<close>

fun py_split_aux :: "unicode_db \<Rightarrow> pystr \<Rightarrow> pystr \<Rightarrow> pystr list" where
  "py_split_aux db cur [] = (if cur = [] then [] else [cur])"
| "py_split_aux db cur (c # cs) =
     (if isspace_cp db c
      then (if cur = [] then py_split_aux db [] cs else cur # py_split_aux db [] cs)
      else py_split_aux db (cur @ [c]) cs)"

definition py_split :: "unicode_db \<Rightarrow> pystr \<Rightarrow> pystr list" where
  "py_split db s = py_split_aux db [] s"

text \<open>\<open>" ".join(ws)\<close>\<close>

fun py_join_space :: "pystr list \<Rightarrow> pystr" where
  "py_join_space [] = []"
| "py_join_space [w] = w"
| "py_join_space (w # v # ws) = w @ [32] @ py_join_space (v # ws)"

text \<open>\<open>s.replace(old, new)\<close> for one-character \<open>old\<close> and \<open>new\<close>.\<close>

definition py_replace :: "nat \<Rightarrow> nat \<Rightarrow> pystr \<Rightarrow> pystr" where
  "py_replace old new s = map (\<lambda>c. if c = old then new else c) s"

text \<open>Truth value of an optional string: \<open>None\<close> and the empty string are false.\<close>

fun truthy :: "pystr option \<Rightarrow> bool" where
  "truthy None = False"
| "truthy (Some s) = (s \<noteq> [])"

text \<open>
  The Latin-1 fragment of the character database, for evaluating the model on concrete
  names: A..Z and the capital letters 192..222 (without the multiplication sign 215)
  lowercase by adding 32; whitespace is 9..13, 28..32, 133 and 160; digits are 48..57.
\<close>

definition latin1_db :: unicode_db where
  "latin1_db = \<lparr>
     lower_cp = (\<lambda>c. if (65 \<le> c \<and> c \<le> 90) \<or> (192 \<le> c \<and> c \<le> 222 \<and> c \<noteq> 215)
                      then [c + 32] else [c]),
     isspace_cp = (\<lambda>c. (9 \<le> c \<and> c \<le> 13) \<or> (28 \<le> c \<and> c \<le> 32) \<or> c = 133 \<or> c = 160),
     isdigit_cp = (\<lambda>c. 48 \<le> c \<and> c \<le> 57) \<rparr>"

section \<open>Normalizer\<close>

definition normalize_cnpj :: "unicode_db \<Rightarrow> pystr option \<Rightarrow> pystr" where
  "normalize_cnpj db cnpj =
     (case cnpj of None \<Rightarrow> []
      | Some s \<Rightarrow> if s = [] then [] else filter (isdigit_cp db) s)"

definition normalize_cpf :: "unicode_db \<Rightarrow> pystr option \<Rightarrow> pystr" where
  "normalize_cpf db cpf =
     (case cpf of None \<Rightarrow> []
      | Some s \<Rightarrow> if s = [] then [] else filter (isdigit_cp db) s)"

definition normalize_text :: "unicode_db \<Rightarrow> pystr option \<Rightarrow> pystr" where
  "normalize_text db text =
     (case text of None \<Rightarrow> []
      | Some s \<Rightarrow> if s = [] then [] else py_join_space (py_split db (py_lower db s)))"

text \<open>
  The replacement table of \<open>_normalize_name\<close>, in the order the dictionary literal lists
  it: a-acute, a-grave, a-tilde, a-circumflex, e-acute, e-circumflex, i-acute, o-acute,
  o-circumflex, o-tilde, u-acute, u-diaeresis, c-cedilla.
\<close>

definition replacements :: "(nat \<times> nat) list" where
  "replacements =
     [(225, 97), (224, 97), (227, 97), (226, 97),
      (233, 101), (234, 101),
      (237, 105),
      (243, 111), (244, 111), (245, 111),
      (250, 117), (252, 117),
      (231, 99)]"

text \<open>The loop \<open>for old, new in replacements.items(): normalized = normalized.replace(old, new)\<close>.\<close>

fun replace_all :: "(nat \<times> nat) list \<Rightarrow> pystr \<Rightarrow> pystr" where
  "replace_all [] s = s"
| "replace_all ((old, new) # rs) s = replace_all rs (py_replace old new s)"

definition normalize_name :: "unicode_db \<Rightarrow> pystr option \<Rightarrow> pystr" where
  "normalize_name db name =
     (case name of None \<Rightarrow> []
      | Some s \<Rightarrow>
          if s = [] then []
          else replace_all replacements (py_join_space (py_split db (py_lower db s))))"

section \<open>Dates\<close>

text \<open>
  \<open>datetime.date\<close>: year, month and day; dates compare in that order. \<open>valid_date\<close> is
  the range every Python \<open>date\<close> object satisfies.
\<close>

record date =
  year :: int
  month :: int
  day :: int

definition date_less :: "date \<Rightarrow> date \<Rightarrow> bool" where
  "date_less a b =
     (year a < year b \<or> (year a = year b \<and> (month a < month b \<or>
        (month a = month b \<and> day a < day b))))"

definition isleap :: "int \<Rightarrow> bool" where
  "isleap y = (y mod 4 = 0 \<and> (y mod 100 \<noteq> 0 \<or> y mod 400 = 0))"

definition days_in_month :: "int \<Rightarrow> int \<Rightarrow> int" where
  "days_in_month y m =
     (if m = 2 then (if isleap y then 29 else 28)
      else if m = 4 \<or> m = 6 \<or> m = 9 \<or> m = 11 then 30 else 31)"

definition valid_date :: "date \<Rightarrow> bool" where
  "valid_date d =
     (1 \<le> year d \<and> year d \<le> 9999 \<and> 1 \<le> month d \<and> month d \<le> 12 \<and>
      1 \<le> day d \<and> day d \<le> days_in_month (year d) (month d))"

datatype py_error = ValueError

text \<open>
  \<open>d - relativedelta(months=6)\<close> of the dateutil library: the month goes back by six,
  borrowing one year when it falls below January; the day is cut to the length of the
  target month; a year below 1 is refused by \<open>date.replace\<close> with a ValueError.
\<close>

definition minus_six_months :: "date \<Rightarrow> py_error + date" where
  "minus_six_months d =
     (let m0 = month d - 6;
          y = (if m0 < 1 then year d - 1 else year d);
          m = (if m0 < 1 then m0 + 12 else m0);
          dd = min (days_in_month y m) (day d)
      in if y < 1 then Inl ValueError else Inr \<lparr>year = y, month = m, day = dd\<rparr>)"

text \<open>\<open>str(d)\<close>: the ISO form YYYY-MM-DD, zero padded.\<close>

fun digits_of :: "nat \<Rightarrow> nat \<Rightarrow> pystr" where
  "digits_of 0 n = []"
| "digits_of (Suc w) n = digits_of w (n div 10) @ [48 + n mod 10]"

definition str_date :: "date \<Rightarrow> pystr" where
  "str_date d =
     digits_of 4 (nat (year d)) @ [45] @ digits_of 2 (nat (month d)) @ [45]
       @ digits_of 2 (nat (day d))"

section \<open>Extracted document records\<close>

text \<open>
  The fields of the extraction records that the consistency engine reads; the other
  fields of the source classes take no part in any rule.
\<close>

record endereco =
  cidade :: "pystr option"
  sede_uf :: "pystr option"

record socio =
  socio_nome :: pystr
  socio_cpf :: "pystr option"

record contrato_social_data =
  contrato_razao_social :: "pystr option"
  contrato_cnpj :: "pystr option"
  sede :: "endereco option"
  socios :: "socio list"

record endereco_estabelecimento =
  municipio :: "pystr option"
  estabelecimento_uf :: "pystr option"

record socio_qsa =
  qsa_nome :: pystr
  cpf_cnpj :: "pystr option"

record cartao_cnpj_data =
  cartao_cnpj :: "pystr option"
  cartao_razao_social :: "pystr option"
  data_situacao_cadastral :: "date option"
  endereco_estabelecimento :: "endereco_estabelecimento option"
  qsa :: "socio_qsa list"

record certidao_negativa_federal_data =
  certidao_cnpj :: "pystr option"
  certidao_razao_social :: "pystr option"
  data_emissao :: "date option"
  data_validade :: "date option"

section \<open>Findings and the state of the analyzer graph\<close>

datatype inconsistency_severity = BLOCKER | WARN

datatype analysis_decision = APROVADO | REPROVADO

record inconsistency =
  code :: pystr
  severity :: inconsistency_severity
  message :: pystr
  field :: "pystr option"
  documents :: "pystr list"
  values_of :: "pystr list"

text \<open>Python floats are modelled as exact rationals; rounding is outside the model.\<close>

record cross_document_analysis_result =
  result_decision :: analysis_decision
  result_inconsistencies :: "inconsistency list"
  result_summary :: pystr
  result_confidence :: rat

record analyzer_state =
  contrato_social :: "contrato_social_data option"
  cartao_cnpj_doc :: "cartao_cnpj_data option"
  certidao_negativa :: "certidao_negativa_federal_data option"
  reference_date :: "date option"
  inconsistencies :: "inconsistency list option"
  decision :: "analysis_decision option"
  confidence :: "rat option"
  summary :: "pystr option"
  result :: "cross_document_analysis_result option"

section \<open>ConsistencyEngine: \<open>deterministic_checks_node\<close>\<close>

text \<open>
  The source keeps one list, \<open>inconsistencies\<close>, and every rule appends to it. Each rule
  below takes the list built so far and returns it extended; the loops recurse over the
  remaining entries.
\<close>

subsection \<open>Rule 1: tax ID\<close>

definition collect_cnpjs :: "unicode_db \<Rightarrow> analyzer_state \<Rightarrow> (pystr \<times> pystr) list" where
  "collect_cnpjs db st =
     (case contrato_social st of
        Some c \<Rightarrow> if truthy (contrato_cnpj c)
                  then [(asc ''CONTRATO_SOCIAL'', normalize_cnpj db (contrato_cnpj c))] else []
      | None \<Rightarrow> [])
     @ (case cartao_cnpj_doc st of
        Some c \<Rightarrow> if truthy (cartao_cnpj c)
                  then [(asc ''CARTAO_CNPJ'', normalize_cnpj db (cartao_cnpj c))] else []
      | None \<Rightarrow> [])
     @ (case certidao_negativa st of
        Some c \<Rightarrow> if truthy (certidao_cnpj c)
                  then [(asc ''CERTIDAO_NEGATIVA'', normalize_cnpj db (certidao_cnpj c))] else []
      | None \<Rightarrow> [])"

definition cnpj_mismatch :: "pystr \<Rightarrow> pystr \<Rightarrow> pystr \<Rightarrow> pystr \<Rightarrow> inconsistency" where
  "cnpj_mismatch ref_doc ref_cnpj doc cnpj =
     \<lparr> code = asc ''cnpj_mismatch'',
       severity = BLOCKER,
       message = asc ''CNPJ divergente entre '' @ ref_doc @ asc '' e '' @ doc @ asc ''.'',
       field = Some (asc ''cnpj''),
       documents = [ref_doc, doc],
       values_of = [ref_cnpj, cnpj] \<rparr>"

fun cnpj_loop ::
  "pystr \<Rightarrow> pystr \<Rightarrow> (pystr \<times> pystr) list \<Rightarrow> inconsistency list \<Rightarrow> inconsistency list" where
  "cnpj_loop ref_doc ref_cnpj [] incs = incs"
| "cnpj_loop ref_doc ref_cnpj ((doc, cnpj) # rest) incs =
     cnpj_loop ref_doc ref_cnpj rest
       (if cnpj \<noteq> ref_cnpj then incs @ [cnpj_mismatch ref_doc ref_cnpj doc cnpj] else incs)"

definition cnpj_rule ::
  "unicode_db \<Rightarrow> analyzer_state \<Rightarrow> inconsistency list \<Rightarrow> inconsistency list" where
  "cnpj_rule db st incs =
     (let cnpjs = collect_cnpjs db st in
      if 2 \<le> length cnpjs
      then (case cnpjs of
              (ref_doc, ref_cnpj) # rest \<Rightarrow> cnpj_loop ref_doc ref_cnpj rest incs
            | [] \<Rightarrow> incs)
      else incs)"

subsection \<open>Rule 2: company name\<close>

definition collect_razoes :: "unicode_db \<Rightarrow> analyzer_state \<Rightarrow> (pystr \<times> pystr) list" where
  "collect_razoes db st =
     (case contrato_social st of
        Some c \<Rightarrow> if truthy (contrato_razao_social c)
                  then [(asc ''CONTRATO_SOCIAL'', normalize_text db (contrato_razao_social c))]
                  else []
      | None \<Rightarrow> [])
     @ (case cartao_cnpj_doc st of
        Some c \<Rightarrow> if truthy (cartao_razao_social c)
                  then [(asc ''CARTAO_CNPJ'', normalize_text db (cartao_razao_social c))]
                  else []
      | None \<Rightarrow> [])
     @ (case certidao_negativa st of
        Some c \<Rightarrow> if truthy (certidao_razao_social c)
                  then [(asc ''CERTIDAO_NEGATIVA'', normalize_text db (certidao_razao_social c))]
                  else []
      | None \<Rightarrow> [])"

definition razao_social_mismatch ::
  "pystr \<Rightarrow> pystr \<Rightarrow> pystr \<Rightarrow> pystr \<Rightarrow> inconsistency" where
  "razao_social_mismatch ref_doc ref_razao doc razao =
     \<lparr> code = asc ''razao_social_mismatch'',
       severity = BLOCKER,
       message = asc ''Raz'' @ [227] @ asc ''o social divergente entre '' @ ref_doc
                   @ asc '' e '' @ doc @ asc ''.'',
       field = Some (asc ''razao_social''),
       documents = [ref_doc, doc],
       values_of = [ref_razao, razao] \<rparr>"

fun razao_loop ::
  "pystr \<Rightarrow> pystr \<Rightarrow> (pystr \<times> pystr) list \<Rightarrow> inconsistency list \<Rightarrow> inconsistency list" where
  "razao_loop ref_doc ref_razao [] incs = incs"
| "razao_loop ref_doc ref_razao ((doc, razao) # rest) incs =
     razao_loop ref_doc ref_razao rest
       (if razao \<noteq> ref_razao
        then incs @ [razao_social_mismatch ref_doc ref_razao doc razao] else incs)"

definition razao_rule ::
  "unicode_db \<Rightarrow> analyzer_state \<Rightarrow> inconsistency list \<Rightarrow> inconsistency list" where
  "razao_rule db st incs =
     (let razoes = collect_razoes db st in
      if 2 \<le> length razoes
      then (case razoes of
              (ref_doc, ref_razao) # rest \<Rightarrow> razao_loop ref_doc ref_razao rest incs
            | [] \<Rightarrow> incs)
      else incs)"

subsection \<open>Rule 3: certificate expiry\<close>

definition certificate_expired :: "date \<Rightarrow> inconsistency" where
  "certificate_expired validade =
     \<lparr> code = asc ''certificate_expired'',
       severity = BLOCKER,
       message = asc ''Certid'' @ [227] @ asc ''o negativa vencida (validade: ''
                   @ str_date validade @ asc '').'',
       field = Some (asc ''data_validade''),
       documents = [asc ''CERTIDAO_NEGATIVA''],
       values_of = [str_date validade] \<rparr>"

definition expiry_rule ::
  "date \<Rightarrow> analyzer_state \<Rightarrow> inconsistency list \<Rightarrow> inconsistency list" where
  "expiry_rule ref st incs =
     (case certidao_negativa st of
        None \<Rightarrow> incs
      | Some certidao \<Rightarrow>
          (case data_validade certidao of
             None \<Rightarrow> incs
           | Some validade \<Rightarrow>
               if date_less validade ref then incs @ [certificate_expired validade]
               else incs))"

subsection \<open>Rules 4 and 5: six-month staleness\<close>

definition certidao_older_than_6_months :: "date \<Rightarrow> inconsistency" where
  "certidao_older_than_6_months emissao =
     \<lparr> code = asc ''document_older_than_6_months'',
       severity = BLOCKER,
       message = asc ''Certid'' @ [227] @ asc ''o negativa emitida h'' @ [225]
                   @ asc '' mais de 6 meses (emiss'' @ [227] @ asc ''o: ''
                   @ str_date emissao @ asc '').'',
       field = Some (asc ''data_emissao''),
       documents = [asc ''CERTIDAO_NEGATIVA''],
       values_of = [str_date emissao] \<rparr>"

definition certidao_stale_rule ::
  "date \<Rightarrow> analyzer_state \<Rightarrow> inconsistency list \<Rightarrow> inconsistency list" where
  "certidao_stale_rule six_months_ago st incs =
     (case certidao_negativa st of
        None \<Rightarrow> incs
      | Some certidao \<Rightarrow>
          (case data_emissao certidao of
             None \<Rightarrow> incs
           | Some emissao \<Rightarrow>
               if date_less emissao six_months_ago
               then incs @ [certidao_older_than_6_months emissao]
               else incs))"

definition cartao_older_than_6_months :: "date \<Rightarrow> inconsistency" where
  "cartao_older_than_6_months situacao =
     \<lparr> code = asc ''document_older_than_6_months'',
       severity = WARN,
       message = asc ''Cart'' @ [227] @ asc ''o CNPJ com situa'' @ [231, 227]
                   @ asc ''o cadastral desatualizada (data: ''
                   @ str_date situacao @ asc '').'',
       field = Some (asc ''data_situacao_cadastral''),
       documents = [asc ''CARTAO_CNPJ''],
       values_of = [str_date situacao] \<rparr>"

definition cartao_stale_rule ::
  "date \<Rightarrow> analyzer_state \<Rightarrow> inconsistency list \<Rightarrow> inconsistency list" where
  "cartao_stale_rule six_months_ago st incs =
     (case cartao_cnpj_doc st of
        None \<Rightarrow> incs
      | Some cartao \<Rightarrow>
          (case data_situacao_cadastral cartao of
             None \<Rightarrow> incs
           | Some situacao \<Rightarrow>
               if date_less situacao six_months_ago
               then incs @ [cartao_older_than_6_months situacao]
               else incs))"

subsection \<open>Rule 6: address\<close>

definition endereco_mismatch :: "pystr \<Rightarrow> pystr \<Rightarrow> pystr \<Rightarrow> pystr \<Rightarrow> inconsistency" where
  "endereco_mismatch cidade_contrato uf_contrato cidade_cartao uf_cartao =
     \<lparr> code = asc ''endereco_mismatch'',
       severity = WARN,
       message = asc ''Endere'' @ [231] @ asc ''o divergente entre Contrato Social (''
                   @ cidade_contrato @ [47] @ uf_contrato @ asc '') e Cart'' @ [227]
                   @ asc ''o CNPJ ('' @ cidade_cartao @ [47] @ uf_cartao @ asc '').'',
       field = Some (asc ''endereco''),
       documents = [asc ''CONTRATO_SOCIAL'', asc ''CARTAO_CNPJ''],
       values_of = [cidade_contrato @ [47] @ uf_contrato, cidade_cartao @ [47] @ uf_cartao] \<rparr>"

definition endereco_rule ::
  "unicode_db \<Rightarrow> analyzer_state \<Rightarrow> inconsistency list \<Rightarrow> inconsistency list" where
  "endereco_rule db st incs =
     (case (contrato_social st, cartao_cnpj_doc st) of
        (Some contrato, Some cartao) \<Rightarrow>
          (case (sede contrato, endereco_estabelecimento cartao) of
             (Some sd, Some endereco) \<Rightarrow>
               (let cidade_contrato = normalize_text db (cidade sd);
                    uf_contrato = normalize_text db (sede_uf sd);
                    cidade_cartao = normalize_text db (municipio endereco);
                    uf_cartao = normalize_text db (estabelecimento_uf endereco)
                in if cidade_contrato \<noteq> [] \<and> cidade_cartao \<noteq> []
                   then (if cidade_contrato \<noteq> cidade_cartao \<or> uf_contrato \<noteq> uf_cartao
                         then incs @ [endereco_mismatch cidade_contrato uf_contrato
                                        cidade_cartao uf_cartao]
                         else incs)
                   else incs)
           | _ \<Rightarrow> incs)
      | _ \<Rightarrow> incs)"

subsection \<open>Rule 7: partner identity numbers\<close>

text \<open>
  A Python \<open>dict\<close> keeps its keys in insertion order; assigning to a key that is already
  present replaces the value and leaves the key where it is.
\<close>

fun dict_set :: "'k \<Rightarrow> 'v \<Rightarrow> ('k \<times> 'v) list \<Rightarrow> ('k \<times> 'v) list" where
  "dict_set k v [] = [(k, v)]"
| "dict_set k v ((k', v') # kvs) =
     (if k' = k then (k, v) # kvs else (k', v') # dict_set k v kvs)"

fun build_contrato_socios ::
  "unicode_db \<Rightarrow> socio list \<Rightarrow> (pystr \<times> pystr) list \<Rightarrow> (pystr \<times> pystr) list" where
  "build_contrato_socios db [] contrato_socios = contrato_socios"
| "build_contrato_socios db (s # ss) contrato_socios =
     build_contrato_socios db ss
       (if socio_nome s \<noteq> [] \<and> truthy (socio_cpf s)
        then dict_set (normalize_name db (Some (socio_nome s)))
               (normalize_cpf db (socio_cpf s)) contrato_socios
        else contrato_socios)"

fun build_qsa_socios ::
  "unicode_db \<Rightarrow> socio_qsa list \<Rightarrow> (pystr \<times> pystr) list \<Rightarrow> (pystr \<times> pystr) list" where
  "build_qsa_socios db [] qsa_socios = qsa_socios"
| "build_qsa_socios db (s # ss) qsa_socios =
     build_qsa_socios db ss
       (if qsa_nome s \<noteq> [] \<and> truthy (cpf_cnpj s)
        then dict_set (normalize_name db (Some (qsa_nome s)))
               (normalize_cpf db (cpf_cnpj s)) qsa_socios
        else qsa_socios)"

text \<open>
  \<open>next((s.nome for s in contrato.socios if _normalize_name(s.nome) == nome_contrato),
  nome_contrato)\<close>: the name of the first partner of the articles, in list order, whose
  normalized name is the key.
\<close>

fun nome_original :: "unicode_db \<Rightarrow> socio list \<Rightarrow> pystr \<Rightarrow> pystr" where
  "nome_original db [] nome_contrato = nome_contrato"
| "nome_original db (s # ss) nome_contrato =
     (if normalize_name db (Some (socio_nome s)) = nome_contrato then socio_nome s
      else nome_original db ss nome_contrato)"

definition socio_cpf_mismatch :: "pystr \<Rightarrow> pystr \<Rightarrow> pystr \<Rightarrow> inconsistency" where
  "socio_cpf_mismatch nome cpf_contrato cpf_qsa =
     \<lparr> code = asc ''socio_cpf_mismatch'',
       severity = BLOCKER,
       message = asc ''CPF divergente para o s'' @ [243] @ asc ''cio '' @ [39] @ nome @ [39]
                   @ asc '' entre Contrato Social e Cart'' @ [227] @ asc ''o CNPJ.'',
       field = Some (asc ''socio_cpf''),
       documents = [asc ''CONTRATO_SOCIAL'', asc ''CARTAO_CNPJ''],
       values_of = [cpf_contrato, cpf_qsa] \<rparr>"

fun qsa_loop ::
  "unicode_db \<Rightarrow> socio list \<Rightarrow> pystr \<Rightarrow> pystr \<Rightarrow> (pystr \<times> pystr) list
     \<Rightarrow> inconsistency list \<Rightarrow> inconsistency list" where
  "qsa_loop db ss nome_contrato cpf_contrato [] incs = incs"
| "qsa_loop db ss nome_contrato cpf_contrato ((nome_qsa, cpf_qsa) # rest) incs =
     qsa_loop db ss nome_contrato cpf_contrato rest
       (if nome_contrato = nome_qsa
        then (if cpf_contrato \<noteq> cpf_qsa
              then incs @ [socio_cpf_mismatch (nome_original db ss nome_contrato)
                             cpf_contrato cpf_qsa]
              else incs)
        else incs)"

fun contrato_loop ::
  "unicode_db \<Rightarrow> socio list \<Rightarrow> (pystr \<times> pystr) list \<Rightarrow> (pystr \<times> pystr) list
     \<Rightarrow> inconsistency list \<Rightarrow> inconsistency list" where
  "contrato_loop db ss qsa_socios [] incs = incs"
| "contrato_loop db ss qsa_socios ((nome_contrato, cpf_contrato) # rest) incs =
     contrato_loop db ss qsa_socios rest
       (qsa_loop db ss nome_contrato cpf_contrato qsa_socios incs)"

definition socios_rule ::
  "unicode_db \<Rightarrow> analyzer_state \<Rightarrow> inconsistency list \<Rightarrow> inconsistency list" where
  "socios_rule db st incs =
     (case (contrato_social st, cartao_cnpj_doc st) of
        (Some contrato, Some cartao) \<Rightarrow>
          if socios contrato \<noteq> [] \<and> qsa cartao \<noteq> []
          then contrato_loop db (socios contrato)
                 (build_qsa_socios db (qsa cartao) [])
                 (build_contrato_socios db (socios contrato) [])
                 incs
          else incs
      | _ \<Rightarrow> incs)"

subsection \<open>The node\<close>

text \<open>
  \<open>today\<close> is the value of \<open>date.today()\<close>, used when the state has no reference date.
  The cutoff is computed between rules 3 and 4 whatever documents are present, so its
  ValueError aborts the node.
\<close>

definition deterministic_checks_node ::
  "unicode_db \<Rightarrow> date \<Rightarrow> analyzer_state \<Rightarrow> py_error + analyzer_state" where
  "deterministic_checks_node db today st =
     (let ref = (case reference_date st of Some d \<Rightarrow> d | None \<Rightarrow> today);
          incs1 = cnpj_rule db st [];
          incs2 = razao_rule db st incs1;
          incs3 = expiry_rule ref st incs2
      in case minus_six_months ref of
           Inl e \<Rightarrow> Inl e
         | Inr six_months_ago \<Rightarrow>
             (let incs4 = certidao_stale_rule six_months_ago st incs3;
                  incs5 = cartao_stale_rule six_months_ago st incs4;
                  incs6 = endereco_rule db st incs5;
                  incs7 = socios_rule db st incs6
              in Inr (st\<lparr>inconsistencies := Some incs7\<rparr>)))"

section \<open>DecisionCombinator: \<open>make_decision_node\<close>\<close>

definition docs_available :: "analyzer_state \<Rightarrow> nat" where
  "docs_available st =
     (if contrato_social st \<noteq> None then 1 else 0)
     + (if cartao_cnpj_doc st \<noteq> None then 1 else 0)
     + (if certidao_negativa st \<noteq> None then 1 else 0)"

definition make_decision_node :: "analyzer_state \<Rightarrow> analyzer_state" where
  "make_decision_node st =
     (let incs = (case inconsistencies st of Some l \<Rightarrow> l | None \<Rightarrow> []);
          has_blocker = list_ex (\<lambda>inc. severity inc = BLOCKER) incs;
          dec = (if has_blocker then REPROVADO else APROVADO);
          base_confidence = of_nat (docs_available st) / 3;
          penalty = of_nat (length incs) * (1 / 10);
          conf = max 0 (min 1 (base_confidence - penalty))
      in st\<lparr>decision := Some dec, confidence := Some conf\<rparr>)"

text \<open>
  \<open>build_result_node\<close>: \<open>x or default\<close> takes the default when \<open>x\<close> is None, an empty
  list, an empty string or 0.0.
\<close>

definition build_result_node :: "analyzer_state \<Rightarrow> analyzer_state" where
  "build_result_node st =
     st\<lparr>result := Some
       \<lparr> result_decision = (case decision st of Some d \<Rightarrow> d | None \<Rightarrow> REPROVADO),
         result_inconsistencies = (case inconsistencies st of Some l \<Rightarrow> l | None \<Rightarrow> []),
         result_summary = (case summary st of Some t \<Rightarrow> t | None \<Rightarrow> []),
         result_confidence = (case confidence st of Some c \<Rightarrow> c | None \<Rightarrow> 0) \<rparr>\<rparr>"

section \<open>Auxiliary notions for the normalizers\<close>

text \<open>
  The facts about the character database that the idempotence of the normalizers rests
  on: the space is whitespace and is its own lowercase form; the lowercase form of any
  code point consists of code points that are their own lowercase form; and the six
  letters a, c, e, i, o, u that the replacement table produces are their own lowercase
  form and are not whitespace. \<open>str.lower\<close> is taken code point by code point: its one
  context-dependent rule (the capital sigma) is outside the model.
\<close>

definition unicode_ok :: "unicode_db \<Rightarrow> bool" where
  "unicode_ok db =
     (isspace_cp db 32 \<and> lower_cp db 32 = [32]
      \<and> (\<forall>c. \<forall>d \<in> set (lower_cp db c). lower_cp db d = [d])
      \<and> (\<forall>c \<in> {97, 99, 101, 105, 111, 117}. lower_cp db c = [c] \<and> \<not> isspace_cp db c))"

text \<open>What the replacement loop does to one code point.\<close>

fun apply_replacements :: "(nat \<times> nat) list \<Rightarrow> nat \<Rightarrow> nat" where
  "apply_replacements [] c = c"
| "apply_replacements ((old, new) # rs) c = apply_replacements rs (if c = old then new else c)"

text \<open>A word as \<open>split\<close> returns it: not empty and free of whitespace.\<close>

definition word_ok :: "unicode_db \<Rightarrow> pystr \<Rightarrow> bool" where
  "word_ok db w = (w \<noteq> [] \<and> (\<forall>c \<in> set w. \<not> isspace_cp db c))"

text \<open>
  Transliteration by a table, all entries at once: a code point that is a key of the
  table becomes its image, every other code point stays.
\<close>

definition transliterate :: "(nat \<times> nat) list \<Rightarrow> nat \<Rightarrow> nat" where
  "transliterate tab c = (case map_of tab c of Some n \<Rightarrow> n | None \<Rightarrow> c)"

text \<open>
  The specification's reading of \<open>normalize_name\<close>, for comparison with the source: as
  \<open>normalize_text\<close>, then transliteration by the twelve-entry table of the specification
  (a-acute, a-tilde, a-circumflex, e-acute, e-circumflex, i-acute, o-acute,
  o-circumflex, o-tilde, u-acute, u-diaeresis, c-cedilla).
\<close>

definition spec_table :: "(nat \<times> nat) list" where
  "spec_table =
     [(225, 97), (227, 97), (226, 97), (233, 101), (234, 101), (237, 105),
      (243, 111), (244, 111), (245, 111), (250, 117), (252, 117), (231, 99)]"

definition spec_normalize_name :: "unicode_db \<Rightarrow> pystr option \<Rightarrow> pystr" where
  "spec_normalize_name db s = map (transliterate spec_table) (normalize_text db s)"

section \<open>Auxiliary notions for the consistency engine\<close>

text \<open>
  What rule 1 adds to the list, in closed form: one finding for every entry after the
  first whose value differs from the first.
\<close>

definition cnpj_findings :: "unicode_db \<Rightarrow> analyzer_state \<Rightarrow> inconsistency list" where
  "cnpj_findings db st =
     (case collect_cnpjs db st of
        [] \<Rightarrow> []
      | (rd, rc) # rest \<Rightarrow>
          map (\<lambda>(d, c). cnpj_mismatch rd rc d c) (filter (\<lambda>(d, c). c \<noteq> rc) rest))"

text \<open>What rule 2 adds to the list, in closed form.\<close>

definition razao_findings :: "unicode_db \<Rightarrow> analyzer_state \<Rightarrow> inconsistency list" where
  "razao_findings db st =
     (case collect_razoes db st of
        [] \<Rightarrow> []
      | (rd, rc) # rest \<Rightarrow>
          map (\<lambda>(d, c). razao_social_mismatch rd rc d c) (filter (\<lambda>(d, c). c \<noteq> rc) rest))"

text \<open>\<open>state.get("reference_date") or date.today()\<close>\<close>

definition ref_date :: "date \<Rightarrow> analyzer_state \<Rightarrow> date" where
  "ref_date today st = (case reference_date st of Some d \<Rightarrow> d | None \<Rightarrow> today)"



text \<open>
  The \<open>cnpj_mismatch\<close> findings of a list.
\<close>

definition cnpj_mismatches :: "inconsistency list \<Rightarrow> inconsistency list" where
  "cnpj_mismatches incs = filter (\<lambda>f. code f = asc ''cnpj_mismatch'') incs"

text \<open>
  A state for evaluation: the articles and the registration card carry the same tax ID in
  two formats, the certificate carries another one.
\<close>

definition cnpj_example :: analyzer_state where
  "cnpj_example =
     \<lparr> contrato_social = Some \<lparr> contrato_razao_social = None,
         contrato_cnpj = Some (asc ''12.345.678/0001-99''), sede = None, socios = [] \<rparr>,
       cartao_cnpj_doc = Some \<lparr> cartao_cnpj = Some (asc ''12345678000199''),
         cartao_razao_social = None, data_situacao_cadastral = None,
         endereco_estabelecimento = None, qsa = [] \<rparr>,
       certidao_negativa = Some \<lparr> certidao_cnpj = Some (asc ''98.765.432/0001-11''),
         certidao_razao_social = None, data_emissao = None, data_validade = None \<rparr>,
       reference_date = Some \<lparr>year = 2025, month = 6, day = 15\<rparr>, inconsistencies = None,
       decision = None, confidence = None, summary = None, result = None \<rparr>"

text \<open>
  The \<open>socio_cpf_mismatch\<close> findings of a list.
\<close>

definition socio_mismatches :: "inconsistency list \<Rightarrow> inconsistency list" where
  "socio_mismatches incs = filter (\<lambda>f. code f = asc ''socio_cpf_mismatch'') incs"

text \<open>
  The partner list of the articles of incorporation, empty when the document is absent.
\<close>

definition contrato_roster :: "analyzer_state \<Rightarrow> socio list" where
  "contrato_roster st = (case contrato_social st of Some c \<Rightarrow> socios c | None \<Rightarrow> [])"

text \<open>
  The partner and officer roster of the registration card, empty when the card is absent.
\<close>

definition qsa_roster :: "analyzer_state \<Rightarrow> socio_qsa list" where
  "qsa_roster st = (case cartao_cnpj_doc st of Some c \<Rightarrow> qsa c | None \<Rightarrow> [])"

text \<open>
  A partner of the articles that has both a name and an identity number.
\<close>

definition contrato_complete :: "socio \<Rightarrow> bool" where
  "contrato_complete s = (socio_nome s \<noteq> [] \<and> truthy (socio_cpf s))"

text \<open>
  A roster entry of the registration card that has both a name and an identity number.
\<close>

definition qsa_complete :: "socio_qsa \<Rightarrow> bool" where
  "qsa_complete s = (qsa_nome s \<noteq> [] \<and> truthy (cpf_cnpj s))"

text \<open>
  What rule 7 adds to the list, in closed form. The two mappings are built from the
  complete partners only. For each normalized name of the articles' mapping, in
  insertion order, there is one finding when the card's mapping has the same name with a
  different normalized identity number. The name shown in the message is looked up in
  the whole partner list of the articles.
\<close>

definition socio_findings :: "unicode_db \<Rightarrow> socio list \<Rightarrow> socio_qsa list \<Rightarrow> inconsistency list" where
  "socio_findings db ss qs =
     concat (map (\<lambda>(nome, cpf).
         case map_of (build_qsa_socios db (filter qsa_complete qs) []) nome of
           Some cpf_qsa \<Rightarrow>
             if cpf \<noteq> cpf_qsa
             then [socio_cpf_mismatch (nome_original db ss nome) cpf cpf_qsa] else []
         | None \<Rightarrow> [])
       (build_contrato_socios db (filter contrato_complete ss) []))"

text \<open>
  A state for evaluation: one partner whose identity number differs between the articles
  and the registration card, written with punctuation in both.
\<close>

definition fernanda_example :: analyzer_state where
  "fernanda_example =
     \<lparr> contrato_social = Some \<lparr> contrato_razao_social = None, contrato_cnpj = None, sede = None,
         socios = [\<lparr> socio_nome = asc ''Fernanda Lima Oliveira'',
                     socio_cpf = Some (asc ''555.666.777-88'') \<rparr>] \<rparr>,
       cartao_cnpj_doc = Some \<lparr> cartao_cnpj = None, cartao_razao_social = None,
         data_situacao_cadastral = None, endereco_estabelecimento = None,
         qsa = [\<lparr> qsa_nome = asc ''Fernanda Lima Oliveira'',
                  cpf_cnpj = Some (asc ''555.666.777-99'') \<rparr>] \<rparr>,
       certidao_negativa = None,
       reference_date = Some \<lparr>year = 2025, month = 6, day = 15\<rparr>, inconsistencies = None,
       decision = None, confidence = None, summary = None, result = None \<rparr>"


section \<open>JobStore records\<close>

text \<open>A UUID is kept in its string form, which is what \<open>str(job_id)\<close> returns.\<close>

type_synonym uuid = pystr

datatype analysis_status = PENDING | RUNNING | SUCCEEDED | FAILED

datatype document_type = CONTRATO_SOCIAL | CARTAO_CNPJ | CERTIDAO_NEGATIVA

fun document_type_value :: "document_type \<Rightarrow> pystr" where
  "document_type_value CONTRATO_SOCIAL = asc ''CONTRATO_SOCIAL''"
| "document_type_value CARTAO_CNPJ = asc ''CARTAO_CNPJ''"
| "document_type_value CERTIDAO_NEGATIVA = asc ''CERTIDAO_NEGATIVA''"

text \<open>
  The values of a \<open>details\<close> dictionary, as far as the exceptions of the repository fill
  it: strings and lists of strings.
\<close>

datatype jvalue = JStr pystr | JList "pystr list"

type_synonym details = "pystr \<rightharpoonup> jvalue"

text \<open>
  An exception as the failure handler reads it: \<open>type(error).__name__\<close>, \<open>str(error)\<close>,
  and, for an instance of ApplicationError, its \<open>code\<close> and \<open>details\<close>.
\<close>

record py_exception =
  exc_type :: pystr
  exc_message :: pystr
  exc_app :: "(pystr \<times> details) option"

text \<open>\<open>model_dump\<close> of the data of an extraction result, by document type.\<close>

datatype extracted_data =
    ContratoSocialDump contrato_social_data
  | CartaoCNPJDump cartao_cnpj_data
  | CertidaoNegativaDump certidao_negativa_federal_data

record document =
  document_id :: uuid
  document_type :: document_type
  filename :: pystr
  content_type :: pystr
  size_bytes :: "nat option"
  checksum_sha256 :: "pystr option"
  object_key :: pystr
  extracted_text :: "pystr option"
  extracted_data :: "extracted_data option"
  document_updated_at :: nat

record analysis_job =
  job_id :: uuid
  company_name :: "pystr option"
  status :: analysis_status
  job_decision :: "analysis_decision option"
  error_message :: "pystr option"
  error_details :: "details option"
  finished_at :: "nat option"
  updated_at :: nat
  job_documents :: "document list"

record analysis_inconsistency =
  inc_job_id :: uuid
  inc_document_id :: "uuid option"
  inc_code :: pystr
  inc_severity :: inconsistency_severity
  inc_message :: pystr
  pointer_field :: "pystr option"
  pointer_documents :: "pystr list"
  pointer_values :: "pystr list"

text \<open>
  The database session: the committed job rows (each with its documents), the committed
  finding rows, and the finding rows passed to \<open>session.add\<close> that the next successful
  commit writes.
\<close>

record session =
  rows :: "uuid \<rightharpoonup> analysis_job"
  inconsistency_rows :: "analysis_inconsistency list"
  added :: "analysis_inconsistency list"

section \<open>JobOrchestrator: \<open>AnalyzeDocuments\<close>\<close>

text \<open>
  The collaborators of one run, with the outcome of each call that can raise: the clock
  (\<open>now_at env k\<close> is the value of the k-th reading), the three commits, the storage
  lookup, the text extraction, the three extraction agents (each returns the \<open>data\<close> of
  its result; the confidence, evidence and notes of a result are read nowhere in the
  run) and the summary call. \<open>None\<close> as the outcome of a commit means that it returned.
\<close>

record env =
  unicode :: unicode_db
  env_today :: date
  now_at :: "nat \<Rightarrow> nat"
  commit_running :: "py_exception option"
  commit_succeeded :: "py_exception option"
  commit_failed :: "py_exception option"
  get_file_path :: "document \<Rightarrow> py_exception + pystr"
  extract_text_from_pdf :: "pystr \<Rightarrow> py_exception + pystr"
  extract_contrato_social :: "pystr \<Rightarrow> py_exception + contrato_social_data"
  extract_cartao_cnpj :: "pystr \<Rightarrow> py_exception + cartao_cnpj_data"
  extract_certidao_negativa_federal :: "pystr \<Rightarrow> py_exception + certidao_negativa_federal_data"
  generate_summary :: "analyzer_state \<Rightarrow> py_exception + pystr"

text \<open>
  The state of a run: the loaded job object, which the run mutates in place, the
  session, the number of clock readings so far, and, as a record of the run, the job
  object as it stood at every commit attempt.
\<close>

record run =
  job :: analysis_job
  sess :: session
  ticks :: nat
  history :: "analysis_job list"

definition now :: "env \<Rightarrow> run \<Rightarrow> nat \<times> run" where
  "now e r = (now_at e (ticks r), r\<lparr>ticks := Suc (ticks r)\<rparr>)"

text \<open>
  \<open>await self.session.commit()\<close>: when it returns, the job row and the added finding rows
  are written; when it raises, nothing is written.
\<close>

definition commit :: "py_exception option \<Rightarrow> run \<Rightarrow> (py_exception \<times> run) + run" where
  "commit outcome r =
     (let r' = r\<lparr>history := history r @ [job r]\<rparr> in
      case outcome of
        Some exc \<Rightarrow> Inl (exc, r')
      | None \<Rightarrow>
          Inr (r'\<lparr>sess := (sess r')\<lparr>
                 rows := (rows (sess r'))(job_id (job r') \<mapsto> job r'),
                 inconsistency_rows := inconsistency_rows (sess r') @ added (sess r'),
                 added := []\<rparr>\<rparr>))"

definition analysis_job_not_found_error :: "uuid \<Rightarrow> py_exception" where
  "analysis_job_not_found_error jid =
     \<lparr> exc_type = asc ''AnalysisJobNotFoundError'',
       exc_message = asc ''Analysis job not found'',
       exc_app = Some (asc ''analysis_job_not_found'',
         (if jid \<noteq> [] then [asc ''resource_type'' \<mapsto> JStr (asc ''AnalysisJob''),
                               asc ''resource_id'' \<mapsto> JStr jid]
          else [asc ''resource_type'' \<mapsto> JStr (asc ''AnalysisJob'')])) \<rparr>"

definition load_analysis_job :: "uuid \<Rightarrow> session \<Rightarrow> py_exception + analysis_job" where
  "load_analysis_job jid s =
     (case rows s jid of
        None \<Rightarrow> Inl (analysis_job_not_found_error jid)
      | Some analysis_job \<Rightarrow> Inr analysis_job)"

definition mark_job_running :: "env \<Rightarrow> run \<Rightarrow> (py_exception \<times> run) + run" where
  "mark_job_running e r =
     (let r1 = r\<lparr>job := (job r)\<lparr>status := RUNNING\<rparr>\<rparr>;
          (t, r2) = now e r1;
          r3 = r2\<lparr>job := (job r2)\<lparr>updated_at := t\<rparr>\<rparr>
      in commit (commit_running e) r3)"

text \<open>
  \<open>_process_document\<close> with \<open>_extract_document_data\<close>. The document object is mutated in
  place, so what was assigned before a raise stays assigned; the function returns the
  document as it stands in both cases.
\<close>

definition process_document ::
  "env \<Rightarrow> document \<Rightarrow> run \<Rightarrow> (py_exception \<times> document \<times> run) + (extracted_data \<times> document \<times> run)" where
  "process_document e d r =
     (case get_file_path e d of
        Inl exc \<Rightarrow> Inl (exc, d, r)
      | Inr file_path \<Rightarrow>
          (case extract_text_from_pdf e file_path of
             Inl exc \<Rightarrow> Inl (exc, d, r)
           | Inr text \<Rightarrow>
               (let d1 = d\<lparr>extracted_text := Some text\<rparr>;
                    extraction =
                      (case document_type d1 of
                         CONTRATO_SOCIAL \<Rightarrow>
                           map_sum id ContratoSocialDump (extract_contrato_social e text)
                       | CARTAO_CNPJ \<Rightarrow>
                           map_sum id CartaoCNPJDump (extract_cartao_cnpj e text)
                       | CERTIDAO_NEGATIVA \<Rightarrow>
                           map_sum id CertidaoNegativaDump
                             (extract_certidao_negativa_federal e text))
                in case extraction of
                     Inl exc \<Rightarrow> Inl (exc, d1, r)
                   | Inr data \<Rightarrow>
                       (let d2 = d1\<lparr>extracted_data := Some data\<rparr>;
                            (t, r1) = now e r
                        in Inr (data, d2\<lparr>document_updated_at := t\<rparr>, r1)))))"

text \<open>
  \<open>extraction_results\<close>: a dictionary from document type to the extraction result and
  its document.
\<close>

type_synonym extraction_results = "document_type \<rightharpoonup> (extracted_data \<times> document)"

text \<open>
  The loop of \<open>_process_all_documents\<close>: \<open>before\<close> are the documents already processed,
  as they now stand, and the third argument the documents still to process.
\<close>

fun process_all_documents_loop ::
  "env \<Rightarrow> document list \<Rightarrow> document list \<Rightarrow> extraction_results \<Rightarrow> run
     \<Rightarrow> (py_exception \<times> run) + (extraction_results \<times> run)" where
  "process_all_documents_loop e before [] results r = Inr (results, r)"
| "process_all_documents_loop e before (d # rest) results r =
     (case process_document e d r of
        Inl (exc, d', r') \<Rightarrow>
          Inl (exc, r'\<lparr>job := (job r')\<lparr>job_documents := before @ d' # rest\<rparr>\<rparr>)
      | Inr (data, d', r') \<Rightarrow>
          process_all_documents_loop e (before @ [d']) rest
            (results(document_type d' \<mapsto> (data, d')))
            (r'\<lparr>job := (job r')\<lparr>job_documents := before @ d' # rest\<rparr>\<rparr>))"

definition process_all_documents ::
  "env \<Rightarrow> run \<Rightarrow> (py_exception \<times> run) + (extraction_results \<times> run)" where
  "process_all_documents e r =
     process_all_documents_loop e [] (job_documents (job r)) Map.empty r"

text \<open>
  \<open>LLMServiceError("Failed to invoke LLM for cross-document analysis",
  original_error=e)\<close>, which \<open>analyze_documents\<close> raises for whatever the graph raised.
\<close>

definition llm_service_error :: "py_exception \<Rightarrow> py_exception" where
  "llm_service_error original =
     \<lparr> exc_type = asc ''LLMServiceError'',
       exc_message = asc ''Failed to invoke LLM for cross-document analysis'',
       exc_app = Some (asc ''llm_service_error'',
         [asc ''service_name'' \<mapsto> JStr (asc ''LLM''),
          asc ''original_error'' \<mapsto> JStr (exc_message original),
          asc ''original_error_type'' \<mapsto> JStr (exc_type original)]) \<rparr>"

definition llm_extraction_error :: py_exception where
  "llm_extraction_error =
     \<lparr> exc_type = asc ''LLMExtractionError'',
       exc_message = asc ''Cross-document analysis did not produce a result'',
       exc_app = Some (asc ''llm_extraction_error'',
         [asc ''extractor_name'' \<mapsto> JStr (asc ''CrossDocumentAnalyzer'')]) \<rparr>"

text \<open>The ValueError of the date arithmetic, as an exception object.\<close>

definition value_error :: py_exception where
  "value_error =
     \<lparr> exc_type = asc ''ValueError'', exc_message = asc ''year 0 is out of range'',
       exc_app = None \<rparr>"

text \<open>
  The compiled graph: \<open>deterministic_checks\<close>, \<open>make_decision\<close>, \<open>generate_summary\<close>,
  \<open>build_result\<close>, in this order.
\<close>

definition run_graph :: "env \<Rightarrow> analyzer_state \<Rightarrow> py_exception + analyzer_state" where
  "run_graph e st =
     (case deterministic_checks_node (unicode e) (env_today e) st of
        Inl ValueError \<Rightarrow> Inl value_error
      | Inr st1 \<Rightarrow>
          (let st2 = make_decision_node st1 in
           case generate_summary e st2 of
             Inl exc \<Rightarrow> Inl exc
           | Inr text \<Rightarrow> Inr (build_result_node (st2\<lparr>summary := Some text\<rparr>))))"

definition analyze_documents ::
  "env \<Rightarrow> contrato_social_data option \<Rightarrow> cartao_cnpj_data option
     \<Rightarrow> certidao_negativa_federal_data option \<Rightarrow> py_exception + cross_document_analysis_result" where
  "analyze_documents e contrato cartao certidao =
     (let initial_state =
            \<lparr> contrato_social = contrato, cartao_cnpj_doc = cartao,
              certidao_negativa = certidao, reference_date = Some (env_today e),
              inconsistencies = None, decision = None, confidence = None,
              summary = None, result = None \<rparr>
      in case run_graph e initial_state of
           Inl exc \<Rightarrow> Inl (llm_service_error exc)
         | Inr final_state \<Rightarrow>
             (case result final_state of
                None \<Rightarrow> Inl llm_extraction_error
              | Some res \<Rightarrow> Inr res))"

definition run_cross_document_analysis ::
  "env \<Rightarrow> extraction_results \<Rightarrow> run
     \<Rightarrow> (py_exception \<times> run) + (cross_document_analysis_result \<times> run)" where
  "run_cross_document_analysis e results r =
     (let contrato = (case results CONTRATO_SOCIAL of
                        Some (ContratoSocialDump c, _) \<Rightarrow> Some c | _ \<Rightarrow> None);
          cartao = (case results CARTAO_CNPJ of
                      Some (CartaoCNPJDump c, _) \<Rightarrow> Some c | _ \<Rightarrow> None);
          certidao = (case results CERTIDAO_NEGATIVA of
                        Some (CertidaoNegativaDump c, _) \<Rightarrow> Some c | _ \<Rightarrow> None)
      in case analyze_documents e contrato cartao certidao of
           Inl exc \<Rightarrow> Inl (exc, r)
         | Inr res \<Rightarrow> Inr (res, r))"

text \<open>
  \<open>_persist_inconsistencies\<close>: each finding becomes a row, attached to the document that
  was extracted for the first document type the finding names.
\<close>

definition first_document_id :: "extraction_results \<Rightarrow> inconsistency \<Rightarrow> uuid option" where
  "first_document_id results inc =
     (case documents inc of
        [] \<Rightarrow> None
      | doc_type_str # _ \<Rightarrow>
          (case filter (\<lambda>t. document_type_value t = doc_type_str \<and> results t \<noteq> None)
                  [CONTRATO_SOCIAL, CARTAO_CNPJ, CERTIDAO_NEGATIVA] of
             [] \<Rightarrow> None
           | t # _ \<Rightarrow> map_option (\<lambda>(_, d). document_id d) (results t)))"

fun persist_inconsistencies ::
  "inconsistency list \<Rightarrow> extraction_results \<Rightarrow> run \<Rightarrow> run" where
  "persist_inconsistencies [] results r = r"
| "persist_inconsistencies (inc # incs) results r =
     persist_inconsistencies incs results
       (r\<lparr>sess := (sess r)\<lparr>added := added (sess r) @
          [\<lparr> inc_job_id = job_id (job r),
             inc_document_id = first_document_id results inc,
             inc_code = code inc,
             inc_severity = severity inc,
             inc_message = message inc,
             pointer_field = field inc,
             pointer_documents = documents inc,
             pointer_values = values_of inc \<rparr>]\<rparr>\<rparr>)"

text \<open>What \<open>handle\<close> returns: the dictionary of the success path or of the failure path.\<close>

datatype run_result =
    Succeeded_result uuid analysis_status "analysis_decision option"
  | Failed_result uuid analysis_status pystr

definition mark_job_succeeded ::
  "env \<Rightarrow> cross_document_analysis_result \<Rightarrow> run \<Rightarrow> (py_exception \<times> run) + (run_result \<times> run)" where
  "mark_job_succeeded e res r =
     (let r1 = r\<lparr>job := (job r)\<lparr>job_decision := Some (result_decision res),
                                   status := SUCCEEDED\<rparr>\<rparr>;
          (t1, r2) = now e r1;
          r3 = r2\<lparr>job := (job r2)\<lparr>finished_at := Some t1\<rparr>\<rparr>;
          (t2, r4) = now e r3;
          r5 = r4\<lparr>job := (job r4)\<lparr>updated_at := t2\<rparr>\<rparr>
      in case commit (commit_succeeded e) r5 of
           Inl x \<Rightarrow> Inl x
         | Inr r6 \<Rightarrow>
             Inr (Succeeded_result (job_id (job r6)) (status (job r6)) (job_decision (job r6)),
                  r6))"

definition mark_job_failed ::
  "env \<Rightarrow> py_exception \<Rightarrow> run \<Rightarrow> (py_exception \<times> run) + (run_result \<times> run)" where
  "mark_job_failed e error r =
     (let error_code = (case exc_app error of
                          Some (c, _) \<Rightarrow> c | None \<Rightarrow> exc_type error);
          error_details' = (case exc_app error of
                          Some (_, d) \<Rightarrow> d | None \<Rightarrow> Map.empty);
          r1 = r\<lparr>job := (job r)\<lparr>
                 status := FAILED,
                 error_message := Some (exc_message error),
                 error_details := Some
                   ([asc ''error_type'' \<mapsto> JStr (exc_type error),
                     asc ''error_code'' \<mapsto> JStr error_code] ++ error_details')\<rparr>\<rparr>;
          (t1, r2) = now e r1;
          r3 = r2\<lparr>job := (job r2)\<lparr>finished_at := Some t1\<rparr>\<rparr>;
          (t2, r4) = now e r3;
          r5 = r4\<lparr>job := (job r4)\<lparr>updated_at := t2\<rparr>\<rparr>
      in case commit (commit_failed e) r5 of
           Inl x \<Rightarrow> Inl x
         | Inr r6 \<Rightarrow>
             Inr (Failed_result (job_id (job r6)) (status (job r6)) (exc_message error), r6))"

text \<open>The body of the \<open>try\<close> block of \<open>handle\<close>.\<close>

definition try_body :: "env \<Rightarrow> run \<Rightarrow> (py_exception \<times> run) + (run_result \<times> run)" where
  "try_body e r =
     (case mark_job_running e r of
        Inl x \<Rightarrow> Inl x
      | Inr r1 \<Rightarrow>
          (case process_all_documents e r1 of
             Inl x \<Rightarrow> Inl x
           | Inr (results, r2) \<Rightarrow>
               (case run_cross_document_analysis e results r2 of
                  Inl x \<Rightarrow> Inl x
                | Inr (res, r3) \<Rightarrow>
                    mark_job_succeeded e res
                      (persist_inconsistencies (result_inconsistencies res) results r3))))"

text \<open>
  \<open>AnalyzeDocuments.handle\<close>. The value is what the call returns or raises (\<open>Inl\<close>),
  the session afterwards, and the states of the job object: the loaded one first, then
  the object at each commit attempt. A job that is not found leaves the session as it
  was and has no states.
\<close>

definition handle ::
  "env \<Rightarrow> uuid \<Rightarrow> session \<Rightarrow> (py_exception + run_result) \<times> session \<times> analysis_job list" where
  "handle e jid s =
     (case load_analysis_job jid s of
        Inl exc \<Rightarrow> (Inl exc, s, [])
      | Inr analysis_job \<Rightarrow>
          (let r0 = \<lparr> job = analysis_job, sess = s, ticks = 0, history = [analysis_job] \<rparr> in
           case (case try_body e r0 of
                   Inr ok \<Rightarrow> Inr ok
                 | Inl (exc, r) \<Rightarrow> mark_job_failed e exc r) of
             Inl (exc, r) \<Rightarrow> (Inl exc, sess r, history r)
           | Inr (res, r) \<Rightarrow> (Inr res, sess r, history r)))"

section \<open>Job-creation boundary: \<open>AnalysisCreateInput\<close> and \<open>CreateDocumentAnalysisJob\<close>\<close>

record upload_file =
  upload_filename :: "pystr option"
  upload_content_type :: "pystr option"
  upload_content :: "nat list"

text \<open>
  The form of a creation request: the company name, absent when the form has no such
  field, and the three optional uploads.
\<close>

record analysis_create_input =
  input_company_name :: "pystr option"
  input_contrato_social :: "upload_file option"
  input_cartao_cnpj :: "upload_file option"
  input_certidao_negativa :: "upload_file option"

datatype validation_failure = CompanyNameMissing | CompanyNameEmpty | NoDocumentProvided

text \<open>
  Modelled from the spec: the constraints on the field \<open>company_name\<close>. The field is
  declared \<open>company_name: str\<close> without a default in \<open>AnalysisCreateInput\<close>, so a request
  without it fails; what else the field must satisfy is set by the base class
  \<open>BaseSchema\<close> (\<open>src/core/base/schemas.py\<close>), which is not among the sources. The
  specification says: company name (required, non-empty).
\<close>

definition validate_company_name :: "pystr option \<Rightarrow> validation_failure option" where
  "validate_company_name name =
     (case name of
        None \<Rightarrow> Some CompanyNameMissing
      | Some s \<Rightarrow> if s = [] then Some CompanyNameEmpty else None)"

text \<open>
  The model validator, run after the fields have been validated. An upload object has
  no truth value of its own, so \<open>any([...])\<close> holds when one of the three is present.
\<close>

definition validate_at_least_one_document ::
  "analysis_create_input \<Rightarrow> validation_failure + analysis_create_input" where
  "validate_at_least_one_document d =
     (if \<not> list_ex (\<lambda>f. f \<noteq> None)
              [input_contrato_social d, input_cartao_cnpj d, input_certidao_negativa d]
      then Inl NoDocumentProvided
      else Inr d)"

definition validate_create_input ::
  "analysis_create_input \<Rightarrow> validation_failure + analysis_create_input" where
  "validate_create_input d =
     (case validate_company_name (input_company_name d) of
        Some failure \<Rightarrow> Inl failure
      | None \<Rightarrow> validate_at_least_one_document d)"

text \<open>
  The collaborators of a creation: the identifiers that \<open>uuid4\<close> returns for the job and
  for the document of each type, the clock, the checksum function, the outcome of the
  write of the storage backend for an object key, and the outcomes of the commit and of
  the hand-off to the task queue.
\<close>

record create_env =
  new_job_id :: uuid
  new_document_id :: "document_type \<Rightarrow> uuid"
  created_at :: nat
  sha256_hex :: "nat list \<Rightarrow> pystr"
  storage_write :: "pystr \<Rightarrow> py_exception option"
  commit_created :: "py_exception option"
  send_task :: "py_exception option"

definition get_document_mapping ::
  "analysis_create_input \<Rightarrow> (document_type \<times> upload_file option) list" where
  "get_document_mapping d =
     [(CONTRATO_SOCIAL, input_contrato_social d),
      (CARTAO_CNPJ, input_cartao_cnpj d),
      (CERTIDAO_NEGATIVA, input_certidao_negativa d)]"

text \<open>
  \<open>_store_and_create_document\<close>; an absent file name is formatted as \<open>None\<close> in the object
  key and replaced by a default in the document.
\<close>

definition store_and_create_document ::
  "create_env \<Rightarrow> uuid \<Rightarrow> document_type \<Rightarrow> upload_file \<Rightarrow> py_exception + document" where
  "store_and_create_document ce jid t f =
     (let key = jid @ [47] @ document_type_value t @ [47]
                  @ (case upload_filename f of None \<Rightarrow> asc ''None'' | Some n \<Rightarrow> n)
      in case storage_write ce key of
           Some exc \<Rightarrow> Inl exc
         | None \<Rightarrow>
             Inr \<lparr> document_id = new_document_id ce t,
                   document_type = t,
                   filename = (case upload_filename f of
                                 Some n \<Rightarrow> if n \<noteq> [] then n else asc ''unknown.pdf''
                               | None \<Rightarrow> asc ''unknown.pdf''),
                   content_type = (case upload_content_type f of
                                     Some c \<Rightarrow> if c \<noteq> [] then c else asc ''application/pdf''
                                   | None \<Rightarrow> asc ''application/pdf''),
                   size_bytes = Some (length (upload_content f)),
                   checksum_sha256 = Some (sha256_hex ce (upload_content f)),
                   object_key = key,
                   extracted_text = None, extracted_data = None,
                   document_updated_at = created_at ce \<rparr>)"

fun process_documents ::
  "create_env \<Rightarrow> uuid \<Rightarrow> (document_type \<times> upload_file option) list \<Rightarrow> document list
     \<Rightarrow> py_exception + document list" where
  "process_documents ce jid [] docs = Inr docs"
| "process_documents ce jid ((t, None) # rest) docs = process_documents ce jid rest docs"
| "process_documents ce jid ((t, Some f) # rest) docs =
     (case store_and_create_document ce jid t f of
        Inl exc \<Rightarrow> Inl exc
      | Inr doc \<Rightarrow> process_documents ce jid rest (docs @ [doc]))"

datatype request_error = Validation validation_failure | Raised py_exception

text \<open>
  The route \<open>POST /v1/analyses\<close>: the request is validated when the input object is built,
  before the use case runs; the use case creates the job in state PENDING, stores the
  documents, commits and hands the job to the task queue. The session holds what has
  been committed.
\<close>

definition create_document_analysis_job ::
  "create_env \<Rightarrow> session \<Rightarrow> analysis_create_input
     \<Rightarrow> (request_error + (uuid \<times> analysis_status)) \<times> session" where
  "create_document_analysis_job ce s request =
     (case validate_create_input request of
        Inl failure \<Rightarrow> (Inl (Validation failure), s)
      | Inr d \<Rightarrow>
          (let analysis_job =
                 \<lparr> job_id = new_job_id ce, company_name = input_company_name d,
                   status = PENDING, job_decision = None, error_message = None,
                   error_details = None, finished_at = None, updated_at = created_at ce,
                   job_documents = [] \<rparr>
           in case process_documents ce (job_id analysis_job) (get_document_mapping d) [] of
                Inl exc \<Rightarrow> (Inl (Raised exc), s)
              | Inr docs \<Rightarrow>
                  (case commit_created ce of
                     Some exc \<Rightarrow> (Inl (Raised exc), s)
                   | None \<Rightarrow>
                       (let s' = s\<lparr>rows := (rows s)(job_id analysis_job \<mapsto>
                                     analysis_job\<lparr>job_documents := docs\<rparr>)\<rparr>
                        in case send_task ce of
                             Some exc \<Rightarrow> (Inl (Raised exc), s')
                           | None \<Rightarrow> (Inr (job_id analysis_job, status analysis_job), s')))))"

section \<open>Auxiliary notions and example runs for the orchestrator\<close>

text \<open>
  Two job objects that differ at most in their document list.
\<close>

definition same_but_documents :: "analysis_job \<Rightarrow> analysis_job \<Rightarrow> bool" where
  "same_but_documents j j' = (j' = j\<lparr>job_documents := job_documents j'\<rparr>)"


text \<open>
  Objects for evaluation: a job in its initial state with one registration-card document,
  and a session that holds it.
\<close>

definition example_document :: document where
  "example_document =
     \<lparr> document_id = asc ''doc-1'', document_type = CARTAO_CNPJ,
       filename = asc ''cnpj.pdf'', content_type = asc ''application/pdf'',
       size_bytes = Some 1024, checksum_sha256 = None,
       object_key = asc ''job-1/CARTAO_CNPJ/cnpj.pdf'',
       extracted_text = None, extracted_data = None, document_updated_at = 10 \<rparr>"

definition example_job :: analysis_job where
  "example_job =
     \<lparr> job_id = asc ''job-1'', company_name = Some (asc ''Test Company''), status = PENDING,
       job_decision = None, error_message = None, error_details = None,
       finished_at = None, updated_at = 10, job_documents = [example_document] \<rparr>"

definition example_session :: session where
  "example_session =
     \<lparr> rows = [asc ''job-1'' \<mapsto> example_job], inconsistency_rows = [], added = [] \<rparr>"

text \<open>
  Exceptions for evaluation: the plain exception of the repository's failure test, a
  database error, and an application error whose details carry a key \<open>error_code\<close>.
\<close>

definition pdf_failure :: py_exception where
  "pdf_failure =
     \<lparr> exc_type = asc ''Exception'', exc_message = asc ''PDF extraction failed'',
       exc_app = None \<rparr>"

definition connection_lost :: py_exception where
  "connection_lost =
     \<lparr> exc_type = asc ''OperationalError'', exc_message = asc ''connection lost'',
       exc_app = None \<rparr>"


text \<open>
  A run in which the text extraction raises and every commit returns.
\<close>

definition pdf_fail_env :: env where
  "pdf_fail_env =
     \<lparr> unicode = latin1_db, env_today = \<lparr>year = 2025, month = 6, day = 15\<rparr>,
       now_at = (\<lambda>k. 100 + k),
       commit_running = None, commit_succeeded = None, commit_failed = None,
       get_file_path = (\<lambda>d. Inr (object_key d)),
       extract_text_from_pdf = (\<lambda>p. Inl pdf_failure),
       extract_contrato_social = (\<lambda>t. Inl pdf_failure),
       extract_cartao_cnpj = (\<lambda>t. Inl pdf_failure),
       extract_certidao_negativa_federal = (\<lambda>t. Inl pdf_failure),
       generate_summary = (\<lambda>st. Inr (asc ''ok'')) \<rparr>"





text \<open>
  A run in which every collaborator returns.
\<close>

definition ok_env :: env where
  "ok_env = pdf_fail_env\<lparr>
     extract_text_from_pdf := (\<lambda>p. Inr (asc ''CNPJ 12.345.678/0001-99'')),
     extract_cartao_cnpj := (\<lambda>t. Inr \<lparr> cartao_cnpj = Some (asc ''12.345.678/0001-99''),
        cartao_razao_social = Some (asc ''Test Company LTDA''),
        data_situacao_cadastral = Some \<lparr>year = 2025, month = 5, day = 1\<rparr>,
        endereco_estabelecimento = None, qsa = [] \<rparr>)\<rparr>"

text \<open>
  The same run, with the commit of the SUCCEEDED transition raising.
\<close>

definition succeeded_commit_lost_env :: env where
  "succeeded_commit_lost_env = ok_env\<lparr>commit_succeeded := Some connection_lost\<rparr>"

text \<open>
  The registration card that the extraction agent of these runs returns, and the state
  the analyzer graph starts from.
\<close>

definition example_cartao :: cartao_cnpj_data where
  "example_cartao =
     \<lparr> cartao_cnpj = Some (asc ''12.345.678/0001-99''),
       cartao_razao_social = Some (asc ''Test Company LTDA''),
       data_situacao_cadastral = Some \<lparr>year = 2025, month = 5, day = 1\<rparr>,
       endereco_estabelecimento = None, qsa = [] \<rparr>"

definition example_state :: analyzer_state where
  "example_state =
     \<lparr> contrato_social = None, cartao_cnpj_doc = Some example_cartao,
       certidao_negativa = None, reference_date = Some \<lparr>year = 2025, month = 6, day = 15\<rparr>,
       inconsistencies = None, decision = None, confidence = None,
       summary = None, result = None \<rparr>"

text \<open>
  A request for evaluation: a company name and the registration card only, as in the
  repository's route test, and collaborators that all return.
\<close>

definition example_upload :: upload_file where
  "example_upload =
     \<lparr> upload_filename = Some (asc ''cnpj.pdf''),
       upload_content_type = Some (asc ''application/pdf''),
       upload_content = [37, 80, 68, 70] \<rparr>"

definition example_request :: analysis_create_input where
  "example_request =
     \<lparr> input_company_name = Some (asc ''CNPJ Only Company''),
       input_contrato_social = None, input_cartao_cnpj = Some example_upload,
       input_certidao_negativa = None \<rparr>"

definition example_create_env :: create_env where
  "example_create_env =
     \<lparr> new_job_id = asc ''job-2'', new_document_id = (\<lambda>t. asc ''doc-2''), created_at = 5,
       sha256_hex = (\<lambda>c. asc ''00''), storage_write = (\<lambda>k. None),
       commit_created = None, send_task = None \<rparr>"

section \<open>Verified properties\<close>

subsection \<open>DecisionCombinator\<close>



subsection \<open>Normalizer\<close>

lemma split_aux_word:
  "\<forall>c \<in> set w. \<not> isspace_cp db c \<Longrightarrow>
     py_split_aux db cur (w @ rest) = py_split_aux db (cur @ w) rest"
  by (induction w arbitrary: cur) auto

lemma split_join:
  "isspace_cp db 32 \<Longrightarrow> \<forall>w \<in> set ws. word_ok db w \<Longrightarrow>
     py_split_aux db [] (py_join_space ws) = ws"
proof (induction ws rule: py_join_space.induct)
  case 1
  then show ?case by simp
next
  case (2 w)
  then show ?case using split_aux_word[of w db "[]" "[]"] by (simp add: word_ok_def)
next
  case (3 w v ws)
  then show ?case
    using split_aux_word[of w db "[]" "32 # py_join_space (v # ws)"]
    by (simp add: word_ok_def)
qed

lemma split_aux_word_ok:
  "w \<in> set (py_split_aux db cur s) \<Longrightarrow> \<forall>c \<in> set cur. \<not> isspace_cp db c \<Longrightarrow>
     word_ok db w"
proof (induction s arbitrary: cur)
  case Nil
  then show ?case by (auto simp: word_ok_def split: if_splits)
next
  case (Cons a s)
  show ?case
  proof (cases "isspace_cp db a")
    case True
    then have "w = cur \<and> cur \<noteq> [] \<or> w \<in> set (py_split_aux db [] s)"
      using Cons.prems(1) by (auto split: if_splits)
    then show ?thesis using Cons.IH[of "[]"] Cons.prems(2) by (auto simp: word_ok_def)
  next
    case False
    then have "w \<in> set (py_split_aux db (cur @ [a]) s)" using Cons.prems(1) by simp
    then show ?thesis using Cons.IH[of "cur @ [a]"] Cons.prems(2) False by auto
  qed
qed

lemma split_aux_words:
  "\<forall>c \<in> set cur. \<not> isspace_cp db c \<Longrightarrow>
     \<forall>w \<in> set (py_split_aux db cur s). word_ok db w"
  using split_aux_word_ok by blast

lemma split_aux_char:
  "w \<in> set (py_split_aux db cur s) \<Longrightarrow> x \<in> set w \<Longrightarrow> x \<in> set cur \<union> set s"
proof (induction s arbitrary: cur)
  case Nil
  then show ?case by (auto split: if_splits)
next
  case (Cons a s)
  show ?case
  proof (cases "isspace_cp db a")
    case True
    then have "w = cur \<or> w \<in> set (py_split_aux db [] s)"
      using Cons.prems(1) by (auto split: if_splits)
    then show ?thesis using Cons.IH[of "[]"] Cons.prems(2) by auto
  next
    case False
    then have "w \<in> set (py_split_aux db (cur @ [a]) s)" using Cons.prems(1) by simp
    then show ?thesis using Cons.IH[of "cur @ [a]"] Cons.prems(2) by auto
  qed
qed

lemma split_aux_chars:
  "set (concat (py_split_aux db cur s)) \<subseteq> set cur \<union> set s"
  using split_aux_char by fastforce

lemma join_chars: "set (py_join_space ws) \<subseteq> insert 32 (set (concat ws))"
  by (induction ws rule: py_join_space.induct) auto

lemma lower_fixed: "\<forall>c \<in> set s. lower_cp db c = [c] \<Longrightarrow> py_lower db s = s"
  by (induction s) (auto simp: py_lower_def)

lemma lower_chars_fixed:
  "unicode_ok db \<Longrightarrow> d \<in> set (py_lower db s) \<Longrightarrow> lower_cp db d = [d]"
  by (auto simp: py_lower_def unicode_ok_def)

lemma replace_all_map: "replace_all rs s = map (apply_replacements rs) s"
  by (induction rs s rule: replace_all.induct) (auto simp: py_replace_def)

lemma normalize_text_idem:
  assumes ok: "unicode_ok db"
  shows "normalize_text db (Some (normalize_text db s)) = normalize_text db s"
proof (cases "truthy s")
  case False
  then show ?thesis by (cases s) (auto simp: normalize_text_def)
next
  case True
  then obtain t where s: "s = Some t" and t: "t \<noteq> []" by (cases s) auto
  define ws where "ws = py_split db (py_lower db t)"
  have wok: "\<forall>w \<in> set ws. word_ok db w"
    unfolding ws_def py_split_def using split_aux_words[of "[]" db] by simp
  have chars: "\<forall>c \<in> set (py_join_space ws). lower_cp db c = [c]"
  proof
    fix c assume "c \<in> set (py_join_space ws)"
    then have "c = 32 \<or> c \<in> set (concat ws)" using join_chars[of ws] by auto
    moreover have "set (concat ws) \<subseteq> set (py_lower db t)"
      unfolding ws_def py_split_def using split_aux_chars[of db "[]"] by simp
    ultimately show "lower_cp db c = [c]"
      using ok lower_chars_fixed[OF ok] by (auto simp: unicode_ok_def)
  qed
  have "py_lower db (py_join_space ws) = py_join_space ws"
    using lower_fixed[OF chars] .
  moreover have "py_split db (py_join_space ws) = ws"
    unfolding py_split_def using split_join[OF _ wok] ok by (simp add: unicode_ok_def)
  ultimately show ?thesis
    by (simp add: normalize_text_def s t ws_def[symmetric])
qed


lemma apply_replacements_table:
  "apply_replacements replacements c = transliterate replacements c"
  by (simp add: replacements_def transliterate_def)

lemma transliterate_replacements:
  "transliterate replacements c =
     (if c \<in> {224, 225, 226, 227} then 97
      else if c \<in> {233, 234} then 101
      else if c = 237 then 105
      else if c \<in> {243, 244, 245} then 111
      else if c \<in> {250, 252} then 117
      else if c = 231 then 99
      else c)"
  by (simp add: replacements_def transliterate_def)

lemma translit_space: "transliterate replacements 32 = 32"
  by (simp add: transliterate_replacements)

lemma translit_target:
  "transliterate replacements c \<noteq> c \<Longrightarrow> transliterate replacements c \<in> {97, 99, 101, 105, 111, 117}"
  by (auto simp: transliterate_replacements split: if_splits)

lemma translit_idem:
  "transliterate replacements (transliterate replacements c) = transliterate replacements c"
  by (simp add: transliterate_replacements)

lemma map_join: "f 32 = 32 \<Longrightarrow> map f (py_join_space ws) = py_join_space (map (map f) ws)"
  by (induction ws rule: py_join_space.induct) auto

lemma normalize_name_eq:
  "normalize_name db s = map (transliterate replacements) (normalize_text db s)"
  by (cases s) (auto simp: normalize_name_def normalize_text_def replace_all_map apply_replacements_table)

lemma normalize_name_idem:
  assumes ok: "unicode_ok db"
  shows "normalize_name db (Some (normalize_name db s)) = normalize_name db s"
proof (cases "truthy s")
  case False
  then show ?thesis by (cases s) (auto simp: normalize_name_def)
next
  case True
  then obtain t where s: "s = Some t" and t: "t \<noteq> []" by (cases s) auto
  let ?f = "transliterate replacements"
  define ws where "ws = py_split db (py_lower db t)"
  define n where "n = map ?f (py_join_space ws)"
  have n_eq: "normalize_name db s = n"
    by (simp add: normalize_name_eq normalize_text_def s t ws_def n_def)
  have wok: "\<forall>w \<in> set ws. word_ok db w"
    unfolding ws_def py_split_def using split_aux_words[of "[]" db] by simp
  have low: "\<forall>c \<in> set (concat ws). lower_cp db c = [c]"
  proof
    fix c assume "c \<in> set (concat ws)"
    moreover have "set (concat ws) \<subseteq> set (py_lower db t)"
      unfolding ws_def py_split_def using split_aux_chars[of db "[]"] by simp
    ultimately show "lower_cp db c = [c]" using lower_chars_fixed[OF ok] by auto
  qed
  have tgt: "\<And>c. ?f c \<noteq> c \<Longrightarrow> lower_cp db (?f c) = [?f c] \<and> \<not> isspace_cp db (?f c)"
    using translit_target ok unfolding unicode_ok_def by blast
  have n_join: "n = py_join_space (map (map ?f) ws)"
    unfolding n_def by (rule map_join) (rule translit_space)
  have wok': "\<forall>w \<in> set (map (map ?f) ws). word_ok db w"
  proof
    fix w assume "w \<in> set (map (map ?f) ws)"
    then obtain v where v: "v \<in> set ws" and w: "w = map ?f v" by auto
    have "word_ok db v" using wok v by blast
    then show "word_ok db w" unfolding w word_ok_def using tgt by (auto, metis)
  qed
  have chars: "\<forall>c \<in> set n. lower_cp db c = [c]"
  proof
    fix c assume "c \<in> set n"
    then obtain d where d: "d \<in> set (py_join_space ws)" and c: "c = ?f d"
      unfolding n_def by auto
    have "d = 32 \<or> d \<in> set (concat ws)" using d join_chars[of ws] by auto
    then have "lower_cp db d = [d]" using low ok by (auto simp: unicode_ok_def)
    then show "lower_cp db c = [c]" unfolding c using tgt[of d] by (cases "?f d = d") auto
  qed
  have l: "py_lower db n = n" using lower_fixed[OF chars] .
  have sp: "py_split db n = map (map ?f) ws"
    unfolding py_split_def n_join using split_join[OF _ wok'] ok by (simp add: unicode_ok_def)
  have "map ?f n = n" unfolding n_def by (simp add: translit_idem)
  then have "normalize_name db (Some n) = n"
    by (cases "n = []") (simp_all add: normalize_name_eq normalize_text_def l sp n_join[symmetric])
  then show ?thesis by (simp add: n_eq)
qed

lemma latin1_ok: "unicode_ok latin1_db"
  by (simp add: unicode_ok_def latin1_db_def)


text \<open>
  Claim C10. Each normalizer is idempotent: applying it to its own result returns that
  result, for every optional input string, over every character database with the facts
  \<open>unicode_ok\<close>.
\<close>

theorem normalizers_idempotent:
  assumes "unicode_ok db"
  shows "normalize_cnpj db (Some (normalize_cnpj db s)) = normalize_cnpj db s
       \<and> normalize_text db (Some (normalize_text db t)) = normalize_text db t
       \<and> normalize_name db (Some (normalize_name db n)) = normalize_name db n"
proof -
  have "normalize_cnpj db (Some (normalize_cnpj db s)) = normalize_cnpj db s"
    by (cases s) (simp_all add: normalize_cnpj_def)
  then show ?thesis
    using normalize_text_idem[OF assms] normalize_name_idem[OF assms] by simp
qed

theorem normalizers_idempotent_witness:
  "unicode_ok latin1_db
   \<and> normalize_cnpj latin1_db (Some (normalize_cnpj latin1_db (Some (asc ''12.345.678/0001-99''))))
       = normalize_cnpj latin1_db (Some (asc ''12.345.678/0001-99''))
   \<and> normalize_text latin1_db (Some (normalize_text latin1_db (Some (asc ''  Empresa   ABC LTDA ''))))
       = normalize_text latin1_db (Some (asc ''  Empresa   ABC LTDA ''))
   \<and> normalize_name latin1_db (Some (normalize_name latin1_db (Some ([74, 111, 227, 111] @ asc ''  Silva''))))
       = normalize_name latin1_db (Some ([74, 111, 227, 111] @ asc ''  Silva''))"
  using normalizers_idempotent[OF latin1_ok] latin1_ok by simp

text \<open>
  Claim C8, as stated: \<open>normalize_name\<close> is \<open>normalize_text\<close> followed by the
  transliteration of exactly the twelve letters of the specification's table. It fails on
  the a-grave (code point 224), which the source's table also maps to a.
\<close>

theorem normalize_name_spec_table_counterexample:
  "normalize_name latin1_db (Some [224]) \<noteq> spec_normalize_name latin1_db (Some [224])"
  by (simp add: normalize_name_eq spec_normalize_name_def normalize_text_def py_split_def
        py_lower_def latin1_db_def transliterate_def replacements_def spec_table_def)

text \<open>
  Claim C8, amended: for every optional input string, \<open>normalize_name\<close> is
  \<open>normalize_text\<close> followed by the transliteration of exactly the thirteen letters of
  the source's table (the twelve of the specification and the a-grave); no other code
  point is altered.
\<close>

theorem normalize_name_table:
  "normalize_name db s = map (transliterate replacements) (normalize_text db s)
   \<and> transliterate replacements c =
       (if c \<in> {224, 225, 226, 227} then 97
        else if c \<in> {233, 234} then 101
        else if c = 237 then 105
        else if c \<in> {243, 244, 245} then 111
        else if c \<in> {250, 252} then 117
        else if c = 231 then 99
        else c)"
  using normalize_name_eq transliterate_replacements by simp

theorem normalize_name_table_witness:
  "normalize_name latin1_db (Some ([192] @ asc '' Concei'' @ [199, 195] @ asc ''o''))
     = asc ''a conceicao''"
  using normalize_name_table[of latin1_db "Some ([192] @ asc '' Concei'' @ [199, 195] @ asc ''o'')"]
  by (simp add: normalize_text_def py_split_def py_lower_def latin1_db_def asc_def)

subsection \<open>ConsistencyEngine: the node as a concatenation of its rules\<close>

lemma cnpj_loop_eq:
  "cnpj_loop rd rc rest incs =
     incs @ map (\<lambda>(d, c). cnpj_mismatch rd rc d c) (filter (\<lambda>(d, c). c \<noteq> rc) rest)"
  by (induction rd rc rest incs rule: cnpj_loop.induct) simp_all

lemma razao_loop_eq:
  "razao_loop rd rc rest incs =
     incs @ map (\<lambda>(d, c). razao_social_mismatch rd rc d c) (filter (\<lambda>(d, c). c \<noteq> rc) rest)"
  by (induction rd rc rest incs rule: razao_loop.induct) simp_all

lemma qsa_loop_eq:
  "qsa_loop db ss k a qm incs =
     incs @ map (\<lambda>(kq, b). socio_cpf_mismatch (nome_original db ss k) a b)
              (filter (\<lambda>(kq, b). k = kq \<and> a \<noteq> b) qm)"
  by (induction db ss k a qm incs rule: qsa_loop.induct) simp_all

lemma contrato_loop_eq:
  "contrato_loop db ss qm cm incs =
     incs @ concat (map (\<lambda>(k, a). map (\<lambda>(kq, b). socio_cpf_mismatch (nome_original db ss k) a b)
              (filter (\<lambda>(kq, b). k = kq \<and> a \<noteq> b) qm)) cm)"
  by (induction db ss qm cm incs rule: contrato_loop.induct) (simp_all add: qsa_loop_eq)

lemma cnpj_rule_eq: "cnpj_rule db st incs = incs @ cnpj_findings db st"
  by (auto simp: cnpj_rule_def cnpj_findings_def cnpj_loop_eq Let_def Suc_le_eq split: list.splits)

lemma razao_rule_eq: "razao_rule db st incs = incs @ razao_findings db st"
  by (auto simp: razao_rule_def razao_findings_def razao_loop_eq Let_def Suc_le_eq split: list.splits)

lemma expiry_rule_eq: "expiry_rule ref st incs = incs @ expiry_rule ref st []"
  by (simp add: expiry_rule_def split: option.splits)

lemma certidao_stale_rule_eq:
  "certidao_stale_rule c st incs = incs @ certidao_stale_rule c st []"
  by (simp add: certidao_stale_rule_def split: option.splits)

lemma cartao_stale_rule_eq:
  "cartao_stale_rule c st incs = incs @ cartao_stale_rule c st []"
  by (simp add: cartao_stale_rule_def split: option.splits)

lemma endereco_rule_eq: "endereco_rule db st incs = incs @ endereco_rule db st []"
  by (simp add: endereco_rule_def Let_def split: option.splits)

lemma socios_rule_eq: "socios_rule db st incs = incs @ socios_rule db st []"
  by (simp add: socios_rule_def contrato_loop_eq split: option.splits)

lemma node_eq:
  assumes "minus_six_months (ref_date today st) = Inr cutoff"
  shows "deterministic_checks_node db today st =
     Inr (st\<lparr>inconsistencies := Some
        (cnpj_findings db st @ razao_findings db st @ expiry_rule (ref_date today st) st []
         @ certidao_stale_rule cutoff st [] @ cartao_stale_rule cutoff st []
         @ endereco_rule db st [] @ socios_rule db st [])\<rparr>)"
proof -
  have "deterministic_checks_node db today st =
     Inr (st\<lparr>inconsistencies := Some
        (socios_rule db st (endereco_rule db st (cartao_stale_rule cutoff st
           (certidao_stale_rule cutoff st (expiry_rule (ref_date today st) st
              (razao_rule db st (cnpj_rule db st [])))))))\<rparr>)"
    using assms by (simp add: deterministic_checks_node_def ref_date_def Let_def)
  also have "socios_rule db st (endereco_rule db st (cartao_stale_rule cutoff st
           (certidao_stale_rule cutoff st (expiry_rule (ref_date today st) st
              (razao_rule db st (cnpj_rule db st []))))))
     = cnpj_findings db st @ razao_findings db st @ expiry_rule (ref_date today st) st []
         @ certidao_stale_rule cutoff st [] @ cartao_stale_rule cutoff st []
         @ endereco_rule db st [] @ socios_rule db st []"
    by (subst socios_rule_eq, subst endereco_rule_eq, subst cartao_stale_rule_eq,
        subst certidao_stale_rule_eq, subst expiry_rule_eq, subst razao_rule_eq,
        subst cnpj_rule_eq) simp
  finally show ?thesis .
qed

lemma node_error:
  "minus_six_months (ref_date today st) = Inl e \<Longrightarrow> deterministic_checks_node db today st = Inl e"
  by (simp add: deterministic_checks_node_def ref_date_def Let_def)

lemma code_cnpj: "f \<in> set (cnpj_findings db st) \<Longrightarrow> code f = asc ''cnpj_mismatch''"
  by (auto simp: cnpj_findings_def cnpj_mismatch_def split: list.splits)

lemma code_razao: "f \<in> set (razao_findings db st) \<Longrightarrow> code f = asc ''razao_social_mismatch''"
  by (auto simp: razao_findings_def razao_social_mismatch_def split: list.splits)

lemma code_expiry: "f \<in> set (expiry_rule r st []) \<Longrightarrow> code f = asc ''certificate_expired''"
  by (auto simp: expiry_rule_def certificate_expired_def split: option.splits if_splits)

lemma code_certidao_stale:
  "f \<in> set (certidao_stale_rule c st []) \<Longrightarrow>
     code f = asc ''document_older_than_6_months'' \<and> documents f = [asc ''CERTIDAO_NEGATIVA'']"
  by (auto simp: certidao_stale_rule_def certidao_older_than_6_months_def split: option.splits if_splits)

lemma code_cartao_stale:
  "f \<in> set (cartao_stale_rule c st []) \<Longrightarrow>
     code f = asc ''document_older_than_6_months'' \<and> documents f = [asc ''CARTAO_CNPJ'']"
  by (auto simp: cartao_stale_rule_def cartao_older_than_6_months_def split: option.splits if_splits)

lemma code_endereco: "f \<in> set (endereco_rule db st []) \<Longrightarrow> code f = asc ''endereco_mismatch''"
  by (auto simp: endereco_rule_def endereco_mismatch_def Let_def split: option.splits if_splits)

lemma code_socios: "f \<in> set (socios_rule db st []) \<Longrightarrow> code f = asc ''socio_cpf_mismatch''"
  by (auto simp: socios_rule_def contrato_loop_eq socio_cpf_mismatch_def split: option.splits if_splits)

lemma codes_distinct:
  "asc ''cnpj_mismatch'' \<noteq> asc ''razao_social_mismatch''"
  "asc ''cnpj_mismatch'' \<noteq> asc ''certificate_expired''"
  "asc ''cnpj_mismatch'' \<noteq> asc ''document_older_than_6_months''"
  "asc ''cnpj_mismatch'' \<noteq> asc ''endereco_mismatch''"
  "asc ''cnpj_mismatch'' \<noteq> asc ''socio_cpf_mismatch''"
  "asc ''razao_social_mismatch'' \<noteq> asc ''document_older_than_6_months''"
  "asc ''razao_social_mismatch'' \<noteq> asc ''socio_cpf_mismatch''"
  "asc ''certificate_expired'' \<noteq> asc ''document_older_than_6_months''"
  "asc ''certificate_expired'' \<noteq> asc ''socio_cpf_mismatch''"
  "asc ''endereco_mismatch'' \<noteq> asc ''document_older_than_6_months''"
  "asc ''endereco_mismatch'' \<noteq> asc ''socio_cpf_mismatch''"
  "asc ''document_older_than_6_months'' \<noteq> asc ''socio_cpf_mismatch''"
  "asc ''CERTIDAO_NEGATIVA'' \<noteq> asc ''CARTAO_CNPJ''"
  "asc ''CONTRATO_SOCIAL'' \<noteq> asc ''CARTAO_CNPJ''"
  "asc ''CONTRATO_SOCIAL'' \<noteq> asc ''CERTIDAO_NEGATIVA''"
  by (simp_all add: asc_def)

lemma filter_all: "(\<And>f. f \<in> set xs \<Longrightarrow> P f) \<Longrightarrow> filter P xs = xs"
  by (induction xs) auto

lemma filter_none: "(\<And>f. f \<in> set xs \<Longrightarrow> \<not> P f) \<Longrightarrow> filter P xs = []"
  by (induction xs) auto





subsection \<open>ConsistencyEngine: tax ID\<close>

lemma node_Inr_cutoff:
  "deterministic_checks_node db today st = Inr st' \<Longrightarrow>
     \<exists>cutoff. minus_six_months (ref_date today st) = Inr cutoff"
  by (cases "minus_six_months (ref_date today st)") (simp_all add: node_error)

lemma cnpj_mismatches_node:
  assumes "deterministic_checks_node db today st = Inr st'"
  shows "\<exists>incs. inconsistencies st' = Some incs \<and> cnpj_mismatches incs = cnpj_findings db st"
proof -
  obtain cutoff where c: "minus_six_months (ref_date today st) = Inr cutoff"
    using node_Inr_cutoff[OF assms] by blast
  let ?P = "\<lambda>f. code f = asc ''cnpj_mismatch''"
  have a1: "filter ?P (cnpj_findings db st) = cnpj_findings db st"
    by (rule filter_all) (auto dest!: code_cnpj)
  have a2: "filter ?P (razao_findings db st) = []"
    by (rule filter_none) (auto dest!: code_razao simp: codes_distinct codes_distinct[symmetric])
  have a3: "filter ?P (expiry_rule r st []) = []" for r
    by (rule filter_none) (auto dest!: code_expiry simp: codes_distinct codes_distinct[symmetric])
  have a4: "filter ?P (certidao_stale_rule cutoff st []) = []"
    by (rule filter_none) (auto dest!: code_certidao_stale simp: codes_distinct codes_distinct[symmetric])
  have a5: "filter ?P (cartao_stale_rule cutoff st []) = []"
    by (rule filter_none) (auto dest!: code_cartao_stale simp: codes_distinct codes_distinct[symmetric])
  have a6: "filter ?P (endereco_rule db st []) = []"
    by (rule filter_none) (auto dest!: code_endereco simp: codes_distinct codes_distinct[symmetric])
  have a7: "filter ?P (socios_rule db st []) = []"
    by (rule filter_none) (auto dest!: code_socios simp: codes_distinct codes_distinct[symmetric])
  show ?thesis
    using assms unfolding node_eq[OF c] cnpj_mismatches_def
    by (auto simp: a1 a2 a3 a4 a5 a6 a7)
qed

lemma collect_cnpjs_distinct: "distinct (map fst (collect_cnpjs db st))"
  by (simp add: collect_cnpjs_def codes_distinct codes_distinct[symmetric] split: option.splits)

lemma collect_cnpjs_order:
  "map fst (collect_cnpjs db st)
     = filter (\<lambda>d. d \<in> fst ` set (collect_cnpjs db st))
         [asc ''CONTRATO_SOCIAL'', asc ''CARTAO_CNPJ'', asc ''CERTIDAO_NEGATIVA'']"
  by (simp add: collect_cnpjs_def codes_distinct codes_distinct[symmetric] split: option.splits)

lemma collect_cnpjs_mem:
  "(asc ''CONTRATO_SOCIAL'', v) \<in> set (collect_cnpjs db st) \<longleftrightarrow>
     (\<exists>c. contrato_social st = Some c \<and> truthy (contrato_cnpj c)
          \<and> v = normalize_cnpj db (contrato_cnpj c))"
  "(asc ''CARTAO_CNPJ'', v) \<in> set (collect_cnpjs db st) \<longleftrightarrow>
     (\<exists>c. cartao_cnpj_doc st = Some c \<and> truthy (cartao_cnpj c)
          \<and> v = normalize_cnpj db (cartao_cnpj c))"
  "(asc ''CERTIDAO_NEGATIVA'', v) \<in> set (collect_cnpjs db st) \<longleftrightarrow>
     (\<exists>c. certidao_negativa st = Some c \<and> truthy (certidao_cnpj c)
          \<and> v = normalize_cnpj db (certidao_cnpj c))"
  by (cases "contrato_social st"; cases "cartao_cnpj_doc st"; cases "certidao_negativa st";
      auto simp: collect_cnpjs_def codes_distinct codes_distinct[symmetric])+

lemma cnpj_findings_pair:
  assumes f: "f \<in> set (cnpj_findings db st)" and d: "documents f = [d1, d2]"
    and m1: "(d1, v1) \<in> set (collect_cnpjs db st)" and m2: "(d2, v2) \<in> set (collect_cnpjs db st)"
  shows "v1 \<noteq> v2"
proof -
  obtain rd rc rest where c: "collect_cnpjs db st = (rd, rc) # rest"
    using f by (cases "collect_cnpjs db st") (auto simp: cnpj_findings_def)
  obtain d v where dv: "(d, v) \<in> set rest" "v \<noteq> rc" and fe: "f = cnpj_mismatch rd rc d v"
    using f by (auto simp: cnpj_findings_def c)
  have e: "d1 = rd" "d2 = d" using d fe by (simp_all add: cnpj_mismatch_def)
  have h: "(rd, rc) \<in> set (collect_cnpjs db st)" by (simp add: c)
  have t: "(d, v) \<in> set (collect_cnpjs db st)" using dv(1) by (simp add: c)
  have "v1 = rc"
    using eq_key_imp_eq_value[OF collect_cnpjs_distinct m1[unfolded e] h] .
  moreover have "v2 = v"
    using eq_key_imp_eq_value[OF collect_cnpjs_distinct m2[unfolded e] t] .
  ultimately show ?thesis using dv(2) by simp
qed

text \<open>
  Claim C5. In the list the node returns, the \<open>cnpj_mismatch\<close> findings are, in order: for
  the entries collected after the first one, one finding for each entry whose normalized
  value differs from the first entry's, with documents = [first type, this type], all of
  severity BLOCKER. The collected entries are the documents with a non-empty tax ID, in
  the order CONTRATO_SOCIAL, CARTAO_CNPJ, CERTIDAO_NEGATIVA, each with the digits of its
  tax ID. Two collected documents whose normalized values are equal never have a
  \<open>cnpj_mismatch\<close> finding on them.
\<close>

theorem cnpj_rule_spec:
  assumes "deterministic_checks_node db today st = Inr st'"
  shows "(\<exists>incs. inconsistencies st' = Some incs
     \<and> cnpj_mismatches incs =
         (case collect_cnpjs db st of
            [] \<Rightarrow> []
          | (ref_doc, ref_cnpj) # rest \<Rightarrow>
              map (\<lambda>(doc, cnpj). cnpj_mismatch ref_doc ref_cnpj doc cnpj)
                (filter (\<lambda>(doc, cnpj). cnpj \<noteq> ref_cnpj) rest))
     \<and> (\<forall>f \<in> set (cnpj_mismatches incs). severity f = BLOCKER)
     \<and> (\<forall>d1 v1 d2 v2. (d1, v1) \<in> set (collect_cnpjs db st) \<and> (d2, v2) \<in> set (collect_cnpjs db st)
            \<and> v1 = v2 \<longrightarrow> \<not> (\<exists>f \<in> set (cnpj_mismatches incs). documents f = [d1, d2])))
   \<and> map fst (collect_cnpjs db st)
           = filter (\<lambda>d. d \<in> fst ` set (collect_cnpjs db st))
               [asc ''CONTRATO_SOCIAL'', asc ''CARTAO_CNPJ'', asc ''CERTIDAO_NEGATIVA'']
   \<and> ((asc ''CONTRATO_SOCIAL'', v) \<in> set (collect_cnpjs db st) \<longleftrightarrow>
           (\<exists>c. contrato_social st = Some c \<and> truthy (contrato_cnpj c)
                \<and> v = normalize_cnpj db (contrato_cnpj c)))
   \<and> ((asc ''CARTAO_CNPJ'', v) \<in> set (collect_cnpjs db st) \<longleftrightarrow>
           (\<exists>c. cartao_cnpj_doc st = Some c \<and> truthy (cartao_cnpj c)
                \<and> v = normalize_cnpj db (cartao_cnpj c)))
   \<and> ((asc ''CERTIDAO_NEGATIVA'', v) \<in> set (collect_cnpjs db st) \<longleftrightarrow>
           (\<exists>c. certidao_negativa st = Some c \<and> truthy (certidao_cnpj c)
                \<and> v = normalize_cnpj db (certidao_cnpj c)))
   \<and> normalize_cnpj db (Some s) = filter (isdigit_cp db) s
   \<and> documents (cnpj_mismatch ref_doc ref_cnpj doc cnpj) = [ref_doc, doc]"
proof -
  obtain incs where i: "inconsistencies st' = Some incs" "cnpj_mismatches incs = cnpj_findings db st"
    using cnpj_mismatches_node[OF assms] by blast
  have sev: "\<forall>f \<in> set (cnpj_findings db st). severity f = BLOCKER"
    by (auto simp: cnpj_findings_def cnpj_mismatch_def split: list.splits)
  have pr: "\<forall>d1 v1 d2 v2. (d1, v1) \<in> set (collect_cnpjs db st) \<and> (d2, v2) \<in> set (collect_cnpjs db st)
            \<and> v1 = v2 \<longrightarrow> \<not> (\<exists>f \<in> set (cnpj_findings db st). documents f = [d1, d2])"
    using cnpj_findings_pair by blast
  have p1: "\<exists>incs. inconsistencies st' = Some incs
     \<and> cnpj_mismatches incs =
         (case collect_cnpjs db st of
            [] \<Rightarrow> []
          | (ref_doc, ref_cnpj) # rest \<Rightarrow>
              map (\<lambda>(doc, cnpj). cnpj_mismatch ref_doc ref_cnpj doc cnpj)
                (filter (\<lambda>(doc, cnpj). cnpj \<noteq> ref_cnpj) rest))
     \<and> (\<forall>f \<in> set (cnpj_mismatches incs). severity f = BLOCKER)
     \<and> (\<forall>d1 v1 d2 v2. (d1, v1) \<in> set (collect_cnpjs db st) \<and> (d2, v2) \<in> set (collect_cnpjs db st)
            \<and> v1 = v2 \<longrightarrow> \<not> (\<exists>f \<in> set (cnpj_mismatches incs). documents f = [d1, d2]))"
  proof (rule exI[of _ incs], intro conjI)
    show "inconsistencies st' = Some incs" by (rule i(1))
    show "cnpj_mismatches incs =
         (case collect_cnpjs db st of
            [] \<Rightarrow> []
          | (ref_doc, ref_cnpj) # rest \<Rightarrow>
              map (\<lambda>(doc, cnpj). cnpj_mismatch ref_doc ref_cnpj doc cnpj)
                (filter (\<lambda>(doc, cnpj). cnpj \<noteq> ref_cnpj) rest))"
      unfolding i(2) by (simp add: cnpj_findings_def)
    show "\<forall>f \<in> set (cnpj_mismatches incs). severity f = BLOCKER"
      unfolding i(2) by (rule sev)
    show "\<forall>d1 v1 d2 v2. (d1, v1) \<in> set (collect_cnpjs db st) \<and> (d2, v2) \<in> set (collect_cnpjs db st)
            \<and> v1 = v2 \<longrightarrow> \<not> (\<exists>f \<in> set (cnpj_mismatches incs). documents f = [d1, d2])"
      unfolding i(2) by (rule pr)
  qed
  have p2: "map fst (collect_cnpjs db st)
           = filter (\<lambda>d. d \<in> fst ` set (collect_cnpjs db st))
               [asc ''CONTRATO_SOCIAL'', asc ''CARTAO_CNPJ'', asc ''CERTIDAO_NEGATIVA'']"
    by (rule collect_cnpjs_order)
  have p3: "(asc ''CONTRATO_SOCIAL'', v) \<in> set (collect_cnpjs db st) \<longleftrightarrow>
           (\<exists>c. contrato_social st = Some c \<and> truthy (contrato_cnpj c)
                \<and> v = normalize_cnpj db (contrato_cnpj c))"
    by (rule collect_cnpjs_mem)
  have p4: "(asc ''CARTAO_CNPJ'', v) \<in> set (collect_cnpjs db st) \<longleftrightarrow>
           (\<exists>c. cartao_cnpj_doc st = Some c \<and> truthy (cartao_cnpj c)
                \<and> v = normalize_cnpj db (cartao_cnpj c))"
    by (rule collect_cnpjs_mem)
  have p5: "(asc ''CERTIDAO_NEGATIVA'', v) \<in> set (collect_cnpjs db st) \<longleftrightarrow>
           (\<exists>c. certidao_negativa st = Some c \<and> truthy (certidao_cnpj c)
                \<and> v = normalize_cnpj db (certidao_cnpj c))"
    by (rule collect_cnpjs_mem)
  have p6: "normalize_cnpj db (Some s) = filter (isdigit_cp db) s"
    by (simp add: normalize_cnpj_def)
  have p7: "documents (cnpj_mismatch ref_doc ref_cnpj doc cnpj) = [ref_doc, doc]"
    by (simp add: cnpj_mismatch_def)
  show ?thesis using p1 p2 p3 p4 p5 p6 p7 by blast
qed

lemma cnpj_example_collect:
  "collect_cnpjs latin1_db cnpj_example =
     [(asc ''CONTRATO_SOCIAL'', asc ''12345678000199''),
      (asc ''CARTAO_CNPJ'', asc ''12345678000199''),
      (asc ''CERTIDAO_NEGATIVA'', asc ''98765432000111'')]"
  by (simp add: collect_cnpjs_def cnpj_example_def normalize_cnpj_def latin1_db_def asc_def)

lemma cnpj_example_node:
  "deterministic_checks_node latin1_db \<lparr>year = 2026, month = 1, day = 1\<rparr> cnpj_example =
     Inr (cnpj_example\<lparr>inconsistencies := Some
       [cnpj_mismatch (asc ''CONTRATO_SOCIAL'') (asc ''12345678000199'')
          (asc ''CERTIDAO_NEGATIVA'') (asc ''98765432000111'')]\<rparr>)"
proof -
  have c: "minus_six_months (ref_date \<lparr>year = 2026, month = 1, day = 1\<rparr> cnpj_example)
             = Inr \<lparr>year = 2024, month = 12, day = 15\<rparr>"
    by (simp add: ref_date_def cnpj_example_def minus_six_months_def days_in_month_def Let_def)
  have f: "cnpj_findings latin1_db cnpj_example =
       [cnpj_mismatch (asc ''CONTRATO_SOCIAL'') (asc ''12345678000199'')
          (asc ''CERTIDAO_NEGATIVA'') (asc ''98765432000111'')]"
    by (simp add: cnpj_findings_def cnpj_example_collect) (simp add: asc_def)
  have r: "razao_findings latin1_db cnpj_example = []"
    by (simp add: razao_findings_def collect_razoes_def cnpj_example_def)
  show ?thesis
    unfolding node_eq[OF c] f r
    by (simp add: cnpj_example_def expiry_rule_def certidao_stale_rule_def cartao_stale_rule_def
          endereco_rule_def socios_rule_def)
qed

theorem cnpj_rule_spec_witness:
  "deterministic_checks_node latin1_db \<lparr>year = 2026, month = 1, day = 1\<rparr> cnpj_example =
     Inr (cnpj_example\<lparr>inconsistencies := Some
       [cnpj_mismatch (asc ''CONTRATO_SOCIAL'') (asc ''12345678000199'')
          (asc ''CERTIDAO_NEGATIVA'') (asc ''98765432000111'')]\<rparr>)
   \<and> cnpj_mismatches [cnpj_mismatch (asc ''CONTRATO_SOCIAL'') (asc ''12345678000199'')
          (asc ''CERTIDAO_NEGATIVA'') (asc ''98765432000111'')]
       = [cnpj_mismatch (asc ''CONTRATO_SOCIAL'') (asc ''12345678000199'')
          (asc ''CERTIDAO_NEGATIVA'') (asc ''98765432000111'')]
   \<and> \<not> (\<exists>f \<in> set (cnpj_mismatches [cnpj_mismatch (asc ''CONTRATO_SOCIAL'') (asc ''12345678000199'')
          (asc ''CERTIDAO_NEGATIVA'') (asc ''98765432000111'')]).
          documents f = [asc ''CONTRATO_SOCIAL'', asc ''CARTAO_CNPJ''])"
  using cnpj_rule_spec[OF cnpj_example_node] cnpj_example_node
  by (simp add: cnpj_example_collect cnpj_mismatches_def cnpj_mismatch_def codes_distinct)

subsection \<open>ConsistencyEngine: partner identity numbers\<close>

lemma map_of_dict_set: "map_of (dict_set k v d) = (map_of d)(k \<mapsto> v)"
  by (induction k v d rule: dict_set.induct) auto

lemma fst_dict_set: "fst ` set (dict_set k v d) = insert k (fst ` set d)"
  by (induction k v d rule: dict_set.induct) auto

lemma distinct_dict_set: "distinct (map fst d) \<Longrightarrow> distinct (map fst (dict_set k v d))"
proof (induction k v d rule: dict_set.induct)
  case (1 k v)
  then show ?case by simp
next
  case (2 k v k' v' kvs)
  then show ?case using fst_dict_set[of k v kvs] by (auto simp: image_iff)
qed

lemma set_dict_set: "(k', v') \<in> set (dict_set k v d) \<Longrightarrow> (k', v') = (k, v) \<or> (k', v') \<in> set d"
  by (induction k v d rule: dict_set.induct) (auto split: if_splits)


lemma build_qsa_distinct:
  "distinct (map fst d) \<Longrightarrow> distinct (map fst (build_qsa_socios db ss d))"
  by (induction ss arbitrary: d) (simp_all add: distinct_dict_set)

lemma build_contrato_filter:
  "build_contrato_socios db (filter contrato_complete ss) d = build_contrato_socios db ss d"
  by (induction ss arbitrary: d) (simp_all add: contrato_complete_def)

lemma build_qsa_filter:
  "build_qsa_socios db (filter qsa_complete ss) d = build_qsa_socios db ss d"
  by (induction ss arbitrary: d) (simp_all add: qsa_complete_def)

lemma build_contrato_mem:
  "(k, a) \<in> set (build_contrato_socios db ss d) \<Longrightarrow>
     (k, a) \<in> set d \<or> (\<exists>s \<in> set ss. contrato_complete s
        \<and> k = normalize_name db (Some (socio_nome s)) \<and> a = normalize_cpf db (socio_cpf s))"
proof (induction ss arbitrary: d)
  case Nil
  then show ?case by simp
next
  case (Cons s ss)
  let ?d = "if socio_nome s \<noteq> [] \<and> truthy (socio_cpf s)
            then dict_set (normalize_name db (Some (socio_nome s)))
                   (normalize_cpf db (socio_cpf s)) d
            else d"
  have "(k, a) \<in> set (build_contrato_socios db ss ?d)" using Cons.prems by simp
  from Cons.IH[OF this] show ?case
    using set_dict_set[of k a "normalize_name db (Some (socio_nome s))"
            "normalize_cpf db (socio_cpf s)" d]
    by (auto simp: contrato_complete_def split: if_splits)
qed

lemma build_qsa_mem:
  "(k, a) \<in> set (build_qsa_socios db ss d) \<Longrightarrow>
     (k, a) \<in> set d \<or> (\<exists>s \<in> set ss. qsa_complete s
        \<and> k = normalize_name db (Some (qsa_nome s)) \<and> a = normalize_cpf db (cpf_cnpj s))"
proof (induction ss arbitrary: d)
  case Nil
  then show ?case by simp
next
  case (Cons s ss)
  let ?d = "if qsa_nome s \<noteq> [] \<and> truthy (cpf_cnpj s)
            then dict_set (normalize_name db (Some (qsa_nome s)))
                   (normalize_cpf db (cpf_cnpj s)) d
            else d"
  have "(k, a) \<in> set (build_qsa_socios db ss ?d)" using Cons.prems by simp
  from Cons.IH[OF this] show ?case
    using set_dict_set[of k a "normalize_name db (Some (qsa_nome s))"
            "normalize_cpf db (cpf_cnpj s)" d]
    by (auto simp: qsa_complete_def split: if_splits)
qed

lemma filter_key_distinct:
  "distinct (map fst qm) \<Longrightarrow>
     filter (\<lambda>(kq, b). k = kq \<and> P b) qm =
       (case map_of qm k of Some b \<Rightarrow> if P b then [(k, b)] else [] | None \<Rightarrow> [])"
proof (induction qm)
  case Nil
  then show ?case by simp
next
  case (Cons x qm)
  obtain kq b where x: "x = (kq, b)" by (cases x)
  show ?case
  proof (cases "kq = k")
    case True
    then have "map_of qm k = None" using Cons.prems x by (simp add: map_of_eq_None_iff)
    then show ?thesis using Cons x True by simp
  next
    case False
    then show ?thesis using Cons x by auto
  qed
qed

lemma nome_original_found:
  "\<exists>s \<in> set ss. normalize_name db (Some (socio_nome s)) = k \<Longrightarrow>
     \<exists>s \<in> set ss. nome_original db ss k = socio_nome s \<and> normalize_name db (Some (socio_nome s)) = k"
  by (induction ss) auto

lemma socio_mismatches_node:
  assumes "deterministic_checks_node db today st = Inr st'"
  shows "\<exists>incs. inconsistencies st' = Some incs \<and> socio_mismatches incs = socios_rule db st []"
proof -
  obtain cutoff where c: "minus_six_months (ref_date today st) = Inr cutoff"
    using node_Inr_cutoff[OF assms] by blast
  let ?P = "\<lambda>f. code f = asc ''socio_cpf_mismatch''"
  have a1: "filter ?P (cnpj_findings db st) = []"
    by (rule filter_none) (auto dest!: code_cnpj simp: codes_distinct codes_distinct[symmetric])
  have a2: "filter ?P (razao_findings db st) = []"
    by (rule filter_none) (auto dest!: code_razao simp: codes_distinct codes_distinct[symmetric])
  have a3: "filter ?P (expiry_rule r st []) = []" for r
    by (rule filter_none) (auto dest!: code_expiry simp: codes_distinct codes_distinct[symmetric])
  have a4: "filter ?P (certidao_stale_rule cutoff st []) = []"
    by (rule filter_none) (auto dest!: code_certidao_stale simp: codes_distinct codes_distinct[symmetric])
  have a5: "filter ?P (cartao_stale_rule cutoff st []) = []"
    by (rule filter_none) (auto dest!: code_cartao_stale simp: codes_distinct codes_distinct[symmetric])
  have a6: "filter ?P (endereco_rule db st []) = []"
    by (rule filter_none) (auto dest!: code_endereco simp: codes_distinct codes_distinct[symmetric])
  have a7: "filter ?P (socios_rule db st []) = socios_rule db st []"
    by (rule filter_all) (auto dest!: code_socios)
  show ?thesis
    using assms unfolding node_eq[OF c] socio_mismatches_def
    by (auto simp: a1 a2 a3 a4 a5 a6 a7)
qed

lemma concat_nil: "(\<And>x. x \<in> set xs \<Longrightarrow> f x = []) \<Longrightarrow> concat (map f xs) = []"
  by (induction xs) auto

lemma contrato_loop_map_of:
  assumes "distinct (map fst qm)"
  shows "contrato_loop db ss qm cm [] =
     concat (map (\<lambda>(k, a). case map_of qm k of
                    Some b \<Rightarrow> if a \<noteq> b then [socio_cpf_mismatch (nome_original db ss k) a b] else []
                  | None \<Rightarrow> []) cm)"
proof -
  have "map (\<lambda>(kq, b). socio_cpf_mismatch (nome_original db ss k) a b)
              (filter (\<lambda>(kq, b). k = kq \<and> a \<noteq> b) qm)
        = (case map_of qm k of
                    Some b \<Rightarrow> if a \<noteq> b then [socio_cpf_mismatch (nome_original db ss k) a b] else []
                  | None \<Rightarrow> [])" for k a
    unfolding filter_key_distinct[OF assms, of k "\<lambda>b. a \<noteq> b"]
    by (simp split: option.splits)
  then show ?thesis by (simp add: contrato_loop_eq cong: map_cong)
qed

lemma socios_rule_findings:
  "socios_rule db st [] = socio_findings db (contrato_roster st) (qsa_roster st)"
proof (cases "contrato_social st")
  case None
  then show ?thesis
    by (simp add: socios_rule_def socio_findings_def contrato_roster_def)
next
  case (Some contrato)
  note c = Some
  show ?thesis
  proof (cases "cartao_cnpj_doc st")
    case None
    have "socio_findings db (socios contrato) [] = []"
      unfolding socio_findings_def by (rule concat_nil) (simp split: prod.splits)
    then show ?thesis
      using None c by (simp add: socios_rule_def contrato_roster_def qsa_roster_def)
  next
    case (Some cartao)
    have e1: "socio_findings db [] (qsa cartao) = []"
      by (simp add: socio_findings_def)
    have e2: "socio_findings db (socios contrato) [] = []"
      unfolding socio_findings_def by (rule concat_nil) (simp split: prod.splits)
    have d: "distinct (map fst (build_qsa_socios db (qsa cartao) []))"
      by (rule build_qsa_distinct) simp
    show ?thesis
      using c Some e1 e2
      by (auto simp: socios_rule_def contrato_roster_def qsa_roster_def
            contrato_loop_map_of[OF d] socio_findings_def build_contrato_filter build_qsa_filter)
  qed
qed

lemma socio_findings_sound:
  assumes "f \<in> set (socio_findings db ss qs)"
  shows "\<exists>s \<in> set ss. \<exists>sc \<in> set ss. \<exists>sq \<in> set qs.
           contrato_complete sc \<and> qsa_complete sq
         \<and> normalize_name db (Some (socio_nome s)) = normalize_name db (Some (socio_nome sc))
         \<and> normalize_name db (Some (qsa_nome sq)) = normalize_name db (Some (socio_nome sc))
         \<and> normalize_cpf db (socio_cpf sc) \<noteq> normalize_cpf db (cpf_cnpj sq)
         \<and> f = socio_cpf_mismatch (socio_nome s) (normalize_cpf db (socio_cpf sc))
                 (normalize_cpf db (cpf_cnpj sq))"
proof -
  let ?cm = "build_contrato_socios db (filter contrato_complete ss) []"
  let ?qm = "build_qsa_socios db (filter qsa_complete qs) []"
  obtain k a b where ka: "(k, a) \<in> set ?cm" and kb: "map_of ?qm k = Some b" and ab: "a \<noteq> b"
    and f: "f = socio_cpf_mismatch (nome_original db ss k) a b"
    using assms unfolding socio_findings_def by (auto split: option.splits if_splits) metis
  obtain sc where sc: "sc \<in> set ss" "contrato_complete sc"
      "k = normalize_name db (Some (socio_nome sc))" "a = normalize_cpf db (socio_cpf sc)"
    using build_contrato_mem[OF ka] by auto
  have "(k, b) \<in> set ?qm" using kb by (rule map_of_SomeD)
  then obtain sq where sq: "sq \<in> set qs" "qsa_complete sq"
      "k = normalize_name db (Some (qsa_nome sq))" "b = normalize_cpf db (cpf_cnpj sq)"
    using build_qsa_mem by fastforce
  obtain s where s: "s \<in> set ss" "nome_original db ss k = socio_nome s"
      "normalize_name db (Some (socio_nome s)) = k"
    using nome_original_found[of ss db k] sc(1,3) by blast
  show ?thesis
    using s sc sq ab f by (intro bexI[of _ s] bexI[of _ sc] bexI[of _ sq]) auto
qed



lemmas eval_norm = normalize_name_eq normalize_text_def normalize_cpf_def py_split_def py_lower_def
  latin1_db_def asc_def transliterate_replacements

lemma fernanda_socios:
  "socios_rule latin1_db fernanda_example [] =
     [socio_cpf_mismatch (asc ''Fernanda Lima Oliveira'') (asc ''55566677788'') (asc ''55566677799'')]"
  by (simp add: socios_rule_def fernanda_example_def eval_norm)



lemma example_node:
  assumes "contrato_social st = Some \<lparr> contrato_razao_social = None, contrato_cnpj = None, sede = None, socios = ss \<rparr>"
    and "cartao_cnpj_doc st = Some \<lparr> cartao_cnpj = None, cartao_razao_social = None,
         data_situacao_cadastral = None, endereco_estabelecimento = None, qsa = qs \<rparr>"
    and "certidao_negativa st = None"
    and "reference_date st = Some \<lparr>year = 2025, month = 6, day = 15\<rparr>"
  shows "deterministic_checks_node db today st = Inr (st\<lparr>inconsistencies := Some (socios_rule db st [])\<rparr>)"
proof -
  have c: "minus_six_months (ref_date today st) = Inr \<lparr>year = 2024, month = 12, day = 15\<rparr>"
    using assms(4) by (simp add: ref_date_def minus_six_months_def days_in_month_def Let_def)
  show ?thesis
    unfolding node_eq[OF c] using assms
    by (simp add: cnpj_findings_def collect_cnpjs_def razao_findings_def collect_razoes_def
          expiry_rule_def certidao_stale_rule_def cartao_stale_rule_def endereco_rule_def)
qed

lemma fernanda_node:
  "deterministic_checks_node latin1_db \<lparr>year = 2026, month = 1, day = 1\<rparr> fernanda_example =
     Inr (fernanda_example\<lparr>inconsistencies := Some
       [socio_cpf_mismatch (asc ''Fernanda Lima Oliveira'') (asc ''55566677788'') (asc ''55566677799'')]\<rparr>)"
  unfolding fernanda_socios[symmetric]
  by (rule example_node) (simp_all add: fernanda_example_def)




text \<open>
  Claim C7, as stated: the values list carries the two raw identity numbers, as
  extracted. It fails on a partner whose numbers are written with punctuation: the values
  list carries the digits only.
\<close>

theorem socio_values_raw_counterexample:
  "deterministic_checks_node latin1_db \<lparr>year = 2026, month = 1, day = 1\<rparr> fernanda_example =
     Inr (fernanda_example\<lparr>inconsistencies := Some
       [socio_cpf_mismatch (asc ''Fernanda Lima Oliveira'') (asc ''55566677788'') (asc ''55566677799'')]\<rparr>)
   \<and> values_of (socio_cpf_mismatch (asc ''Fernanda Lima Oliveira'') (asc ''55566677788'')
         (asc ''55566677799'')) = [asc ''55566677788'', asc ''55566677799'']
   \<and> [asc ''55566677788'', asc ''55566677799''] \<noteq> [asc ''555.666.777-88'', asc ''555.666.777-99'']"
  using fernanda_node by (simp add: socio_cpf_mismatch_def asc_def)

text \<open>
  Claim C7, amended: every \<open>socio_cpf_mismatch\<close> finding names in its message the
  original, non-normalized name of a partner of the articles whose normalized name is the
  matched one, and its values list carries the two normalized (digits-only) identity
  numbers, of a complete partner of the articles and of a complete entry of the card
  with that normalized name; the two numbers differ.
\<close>

theorem socio_mismatch_content:
  assumes "deterministic_checks_node db today st = Inr st'"
  shows "(\<exists>incs. inconsistencies st' = Some incs
            \<and> (\<forall>f \<in> set (socio_mismatches incs).
                 \<exists>s \<in> set (contrato_roster st). \<exists>sc \<in> set (contrato_roster st).
                 \<exists>sq \<in> set (qsa_roster st).
                    contrato_complete sc \<and> qsa_complete sq
                  \<and> normalize_name db (Some (socio_nome s)) = normalize_name db (Some (socio_nome sc))
                  \<and> normalize_name db (Some (qsa_nome sq)) = normalize_name db (Some (socio_nome sc))
                  \<and> message f = asc ''CPF divergente para o s'' @ [243] @ asc ''cio '' @ [39]
                       @ socio_nome s @ [39]
                       @ asc '' entre Contrato Social e Cart'' @ [227] @ asc ''o CNPJ.''
                  \<and> values_of f = [normalize_cpf db (socio_cpf sc), normalize_cpf db (cpf_cnpj sq)]
                  \<and> normalize_cpf db (socio_cpf sc) \<noteq> normalize_cpf db (cpf_cnpj sq)))
       \<and> normalize_cpf db (Some raw) = filter (isdigit_cp db) raw"
proof -
  obtain incs where i: "inconsistencies st' = Some incs"
      "socio_mismatches incs = socio_findings db (contrato_roster st) (qsa_roster st)"
    using socio_mismatches_node[OF assms] by (auto simp: socios_rule_findings)
  have "\<forall>f \<in> set (socio_mismatches incs).
                 \<exists>s \<in> set (contrato_roster st). \<exists>sc \<in> set (contrato_roster st).
                 \<exists>sq \<in> set (qsa_roster st).
                    contrato_complete sc \<and> qsa_complete sq
                  \<and> normalize_name db (Some (socio_nome s)) = normalize_name db (Some (socio_nome sc))
                  \<and> normalize_name db (Some (qsa_nome sq)) = normalize_name db (Some (socio_nome sc))
                  \<and> message f = asc ''CPF divergente para o s'' @ [243] @ asc ''cio '' @ [39]
                       @ socio_nome s @ [39]
                       @ asc '' entre Contrato Social e Cart'' @ [227] @ asc ''o CNPJ.''
                  \<and> values_of f = [normalize_cpf db (socio_cpf sc), normalize_cpf db (cpf_cnpj sq)]
                  \<and> normalize_cpf db (socio_cpf sc) \<noteq> normalize_cpf db (cpf_cnpj sq)"
  proof
    fix f assume "f \<in> set (socio_mismatches incs)"
    then have "f \<in> set (socio_findings db (contrato_roster st) (qsa_roster st))" by (simp add: i)
    from socio_findings_sound[OF this] obtain s sc sq where
      h: "s \<in> set (contrato_roster st)" "sc \<in> set (contrato_roster st)" "sq \<in> set (qsa_roster st)"
         "contrato_complete sc" "qsa_complete sq"
         "normalize_name db (Some (socio_nome s)) = normalize_name db (Some (socio_nome sc))"
         "normalize_name db (Some (qsa_nome sq)) = normalize_name db (Some (socio_nome sc))"
         "normalize_cpf db (socio_cpf sc) \<noteq> normalize_cpf db (cpf_cnpj sq)"
         "f = socio_cpf_mismatch (socio_nome s) (normalize_cpf db (socio_cpf sc))
                 (normalize_cpf db (cpf_cnpj sq))"
      by blast
    show "\<exists>s \<in> set (contrato_roster st). \<exists>sc \<in> set (contrato_roster st).
                 \<exists>sq \<in> set (qsa_roster st).
                    contrato_complete sc \<and> qsa_complete sq
                  \<and> normalize_name db (Some (socio_nome s)) = normalize_name db (Some (socio_nome sc))
                  \<and> normalize_name db (Some (qsa_nome sq)) = normalize_name db (Some (socio_nome sc))
                  \<and> message f = asc ''CPF divergente para o s'' @ [243] @ asc ''cio '' @ [39]
                       @ socio_nome s @ [39]
                       @ asc '' entre Contrato Social e Cart'' @ [227] @ asc ''o CNPJ.''
                  \<and> values_of f = [normalize_cpf db (socio_cpf sc), normalize_cpf db (cpf_cnpj sq)]
                  \<and> normalize_cpf db (socio_cpf sc) \<noteq> normalize_cpf db (cpf_cnpj sq)"
      by (rule bexI[OF _ h(1)], rule bexI[OF _ h(2)], rule bexI[OF _ h(3)])
         (simp add: h socio_cpf_mismatch_def)
  qed
  moreover have "normalize_cpf db (Some raw) = filter (isdigit_cp db) raw"
    by (simp add: normalize_cpf_def)
  ultimately show ?thesis using i(1) by blast
qed

theorem socio_mismatch_content_witness:
  "deterministic_checks_node latin1_db \<lparr>year = 2026, month = 1, day = 1\<rparr> fernanda_example =
     Inr (fernanda_example\<lparr>inconsistencies := Some
       [socio_cpf_mismatch (asc ''Fernanda Lima Oliveira'') (asc ''55566677788'') (asc ''55566677799'')]\<rparr>)
   \<and> normalize_cpf latin1_db (Some (asc ''555.666.777-88'')) = asc ''55566677788''"
  using socio_mismatch_content[OF fernanda_node, of "asc ''555.666.777-88''"] fernanda_node
  by (simp add: latin1_db_def asc_def)

subsection \<open>JobOrchestrator\<close>






lemma same_but_documents_upd: "same_but_documents j j' \<Longrightarrow> same_but_documents j (j'\<lparr>job_documents := ds\<rparr>)"
  by (cases j, cases j') (auto simp: same_but_documents_def)












lemmas run_defs = handle_def load_analysis_job_def try_body_def mark_job_running_def
  mark_job_failed_def process_all_documents_def process_document_def commit_def now_def Let_def







lemma example_checks:
  "deterministic_checks_node latin1_db \<lparr>year = 2025, month = 6, day = 15\<rparr> example_state
     = Inr (example_state\<lparr>inconsistencies := Some []\<rparr>)"
proof -
  have c: "minus_six_months (ref_date \<lparr>year = 2025, month = 6, day = 15\<rparr> example_state)
             = Inr \<lparr>year = 2024, month = 12, day = 15\<rparr>"
    by (simp add: ref_date_def example_state_def minus_six_months_def days_in_month_def Let_def)
  have "cnpj_findings latin1_db example_state = []"
    by (simp add: cnpj_findings_def collect_cnpjs_def example_state_def)
  moreover have "razao_findings latin1_db example_state = []"
    by (simp add: razao_findings_def collect_razoes_def example_state_def)
  moreover have "expiry_rule d example_state [] = []" for d
    by (simp add: expiry_rule_def example_state_def)
  moreover have "certidao_stale_rule d example_state [] = []" for d
    by (simp add: certidao_stale_rule_def example_state_def)
  moreover have "cartao_stale_rule \<lparr>year = 2024, month = 12, day = 15\<rparr> example_state [] = []"
    by (simp add: cartao_stale_rule_def example_state_def example_cartao_def date_less_def)
  moreover have "endereco_rule latin1_db example_state [] = []"
    by (simp add: endereco_rule_def example_state_def)
  moreover have "socios_rule latin1_db example_state [] = []"
    by (simp add: socios_rule_def example_state_def)
  ultimately show ?thesis unfolding node_eq[OF c] by simp
qed

lemma example_analysis:
  "unicode e = latin1_db \<Longrightarrow> env_today e = \<lparr>year = 2025, month = 6, day = 15\<rparr> \<Longrightarrow>
   generate_summary e = (\<lambda>st. Inr (asc ''ok'')) \<Longrightarrow>
   analyze_documents e None (Some example_cartao) None =
     Inr \<lparr> result_decision = APROVADO, result_inconsistencies = [],
           result_summary = asc ''ok'', result_confidence = 1 / 3 \<rparr>"
  using example_checks
  by (simp add: analyze_documents_def run_graph_def example_state_def make_decision_node_def
        docs_available_def build_result_node_def asc_def)

lemma ok_env_fields:
  "unicode ok_env = latin1_db" "env_today ok_env = \<lparr>year = 2025, month = 6, day = 15\<rparr>"
  "generate_summary ok_env = (\<lambda>st. Inr (asc ''ok''))"
  "extract_cartao_cnpj ok_env = (\<lambda>t. Inr example_cartao)"
  "extract_text_from_pdf ok_env = (\<lambda>p. Inr (asc ''CNPJ 12.345.678/0001-99''))"
  "get_file_path ok_env = (\<lambda>d. Inr (object_key d))"
  "commit_running ok_env = None" "commit_succeeded ok_env = None" "commit_failed ok_env = None"
  "now_at ok_env = (\<lambda>k. 100 + k)"
  by (simp_all add: ok_env_def pdf_fail_env_def example_cartao_def)

lemma lost_env_fields:
  "unicode succeeded_commit_lost_env = latin1_db"
  "env_today succeeded_commit_lost_env = \<lparr>year = 2025, month = 6, day = 15\<rparr>"
  "generate_summary succeeded_commit_lost_env = (\<lambda>st. Inr (asc ''ok''))"
  "extract_cartao_cnpj succeeded_commit_lost_env = (\<lambda>t. Inr example_cartao)"
  "extract_text_from_pdf succeeded_commit_lost_env = (\<lambda>p. Inr (asc ''CNPJ 12.345.678/0001-99''))"
  "get_file_path succeeded_commit_lost_env = (\<lambda>d. Inr (object_key d))"
  "commit_running succeeded_commit_lost_env = None"
  "commit_succeeded succeeded_commit_lost_env = Some connection_lost"
  "commit_failed succeeded_commit_lost_env = None"
  "now_at succeeded_commit_lost_env = (\<lambda>k. 100 + k)"
  by (simp_all add: succeeded_commit_lost_env_def ok_env_def pdf_fail_env_def example_cartao_def)

text \<open>
  The success path, evaluated: the run returns the success result and the job goes
  through PENDING, RUNNING, SUCCEEDED.
\<close>

lemma ok_run:
  "fst (handle ok_env (asc ''job-1'') example_session)
     = Inr (Succeeded_result (asc ''job-1'') SUCCEEDED (Some APROVADO))
   \<and> map status (snd (snd (handle ok_env (asc ''job-1'') example_session)))
     = [PENDING, RUNNING, SUCCEEDED]"
  by (simp add: run_defs run_cross_document_analysis_def mark_job_succeeded_def
        example_analysis[OF ok_env_fields(1,2,3)] ok_env_fields
        example_session_def example_job_def example_document_def)

text \<open>
  When the commit of the SUCCEEDED transition raises, the handler takes the job object
  from SUCCEEDED to FAILED and the decision stays set.
\<close>

lemma succeeded_commit_lost_run:
  "fst (handle succeeded_commit_lost_env (asc ''job-1'') example_session)
     = Inr (Failed_result (asc ''job-1'') FAILED (asc ''connection lost''))
   \<and> map status (snd (snd (handle succeeded_commit_lost_env (asc ''job-1'') example_session)))
     = [PENDING, RUNNING, SUCCEEDED, FAILED]
   \<and> map job_decision (snd (snd (handle succeeded_commit_lost_env (asc ''job-1'') example_session)))
     = [None, None, Some APROVADO, Some APROVADO]"
  by (simp add: run_defs run_cross_document_analysis_def mark_job_succeeded_def
        example_analysis[OF lost_env_fields(1,2,3)] lost_env_fields
        example_session_def example_job_def example_document_def connection_lost_def)

subsection \<open>Job-creation boundary\<close>

lemma process_documents_length:
  "process_documents ce jid m docs = Inr ds \<Longrightarrow>
     length ds = length docs + length (filter (\<lambda>(t, f). f \<noteq> None) m)"
  by (induction ce jid m docs rule: process_documents.induct) (auto split: sum.splits)

lemma validate_reject:
  "(input_contrato_social d = None \<and> input_cartao_cnpj d = None
        \<and> input_certidao_negativa d = None)
      \<or> input_company_name d = None \<or> input_company_name d = Some [] \<Longrightarrow>
   \<exists>failure. validate_create_input d = Inl failure"
  by (auto simp: validate_create_input_def validate_company_name_def
        validate_at_least_one_document_def split: option.splits)

lemma validate_accept:
  "input_company_name d = Some n \<Longrightarrow> n \<noteq> [] \<Longrightarrow>
   input_contrato_social d \<noteq> None \<or> input_cartao_cnpj d \<noteq> None
            \<or> input_certidao_negativa d \<noteq> None \<Longrightarrow>
   validate_create_input d = Inr d"
  by (auto simp: validate_create_input_def validate_company_name_def
        validate_at_least_one_document_def)

lemma create_accepted:
  assumes v: "validate_create_input d = Inr d"
    and docs: "input_contrato_social d \<noteq> None \<or> input_cartao_cnpj d \<noteq> None
            \<or> input_certidao_negativa d \<noteq> None"
  shows "create_document_analysis_job ce s d \<noteq> (Inl (Validation failure), s')"
    and "create_document_analysis_job ce s d = (Inr (jid, st), s') \<Longrightarrow>
           st = PENDING \<and> (\<exists>j. rows s' jid = Some j \<and> status j = PENDING
                 \<and> job_documents j \<noteq> [])"
proof -
  show "create_document_analysis_job ce s d \<noteq> (Inl (Validation failure), s')"
    using v by (auto simp: create_document_analysis_job_def Let_def split: sum.splits option.splits)
  assume c: "create_document_analysis_job ce s d = (Inr (jid, st), s')"
  then obtain ds where p: "process_documents ce (new_job_id ce) (get_document_mapping d) [] = Inr ds"
    using v by (auto simp: create_document_analysis_job_def Let_def split: sum.splits option.splits)
  have "length ds = length (filter (\<lambda>(t, f). f \<noteq> None) (get_document_mapping d))"
    using process_documents_length[OF p] by simp
  then have "ds \<noteq> []" using docs
    by (cases "input_contrato_social d"; cases "input_cartao_cnpj d";
        cases "input_certidao_negativa d"; auto simp: get_document_mapping_def)
  then show "st = PENDING \<and> (\<exists>j. rows s' jid = Some j \<and> status j = PENDING
                 \<and> job_documents j \<noteq> [])"
    using c v p by (auto simp: create_document_analysis_job_def Let_def split: option.splits)
qed

text \<open>
  Claim C9. A creation request that supplies no document, or no company name, or an
  empty one, ends in a validation failure and leaves the session as it was, so no job is
  created. A request with a non-empty company name and at least one of the three uploads
  passes the validation, never ends in a validation failure, and when the creation
  returns, the job is committed in state PENDING with its documents.
\<close>

theorem create_input_validation:
  "((input_contrato_social d = None \<and> input_cartao_cnpj d = None
        \<and> input_certidao_negativa d = None)
      \<or> input_company_name d = None \<or> input_company_name d = Some [] \<longrightarrow>
        (\<exists>failure. create_document_analysis_job ce s d = (Inl (Validation failure), s)))
   \<and> ((\<exists>n. input_company_name d = Some n \<and> n \<noteq> [])
        \<and> (input_contrato_social d \<noteq> None \<or> input_cartao_cnpj d \<noteq> None
            \<or> input_certidao_negativa d \<noteq> None) \<longrightarrow>
        validate_create_input d = Inr d
        \<and> (\<forall>failure s'. create_document_analysis_job ce s d \<noteq> (Inl (Validation failure), s'))
        \<and> (\<forall>jid st s'. create_document_analysis_job ce s d = (Inr (jid, st), s') \<longrightarrow>
              st = PENDING \<and> (\<exists>j. rows s' jid = Some j \<and> status j = PENDING
                 \<and> job_documents j \<noteq> [])))"
proof (intro conjI impI)
  assume "(input_contrato_social d = None \<and> input_cartao_cnpj d = None
        \<and> input_certidao_negativa d = None)
      \<or> input_company_name d = None \<or> input_company_name d = Some []"
  from validate_reject[OF this] obtain failure where "validate_create_input d = Inl failure"
    by blast
  then have "create_document_analysis_job ce s d = (Inl (Validation failure), s)"
    by (simp add: create_document_analysis_job_def)
  then show "\<exists>failure. create_document_analysis_job ce s d = (Inl (Validation failure), s)"
    by blast
next
  assume a: "(\<exists>n. input_company_name d = Some n \<and> n \<noteq> [])
        \<and> (input_contrato_social d \<noteq> None \<or> input_cartao_cnpj d \<noteq> None
            \<or> input_certidao_negativa d \<noteq> None)"
  then show v: "validate_create_input d = Inr d" using validate_accept by blast
  from a have docs: "input_contrato_social d \<noteq> None \<or> input_cartao_cnpj d \<noteq> None
            \<or> input_certidao_negativa d \<noteq> None" by blast
  show "\<forall>failure s'. create_document_analysis_job ce s d \<noteq> (Inl (Validation failure), s')"
    using create_accepted(1)[OF v docs] by blast
  show "\<forall>jid st s'. create_document_analysis_job ce s d = (Inr (jid, st), s') \<longrightarrow>
              st = PENDING \<and> (\<exists>j. rows s' jid = Some j \<and> status j = PENDING
                 \<and> job_documents j \<noteq> [])"
    using create_accepted(2)[OF v docs] by blast
qed

theorem create_input_validation_witness:
  "input_company_name example_request = Some (asc ''CNPJ Only Company'')
   \<and> input_cartao_cnpj example_request \<noteq> None
   \<and> validate_create_input example_request = Inr example_request
   \<and> fst (create_document_analysis_job example_create_env example_session example_request)
       = Inr (asc ''job-2'', PENDING)
   \<and> input_company_name (example_request\<lparr>input_company_name := Some []\<rparr>) = Some []
   \<and> (\<exists>failure. create_document_analysis_job example_create_env example_session
          (example_request\<lparr>input_company_name := Some []\<rparr>)
            = (Inl (Validation failure), example_session))
   \<and> (\<exists>failure. create_document_analysis_job example_create_env example_session
          (example_request\<lparr>input_cartao_cnpj := None\<rparr>)
            = (Inl (Validation failure), example_session))"
proof -
  have n: "input_company_name example_request = Some (asc ''CNPJ Only Company'')"
      "asc ''CNPJ Only Company'' \<noteq> []" "input_cartao_cnpj example_request \<noteq> None"
    by (simp_all add: example_request_def asc_def)
  have v: "validate_create_input example_request = Inr example_request"
    using create_input_validation[of example_request] n by blast
  have r: "fst (create_document_analysis_job example_create_env example_session example_request)
       = Inr (asc ''job-2'', PENDING)"
    by (simp add: create_document_analysis_job_def v)
       (simp add: get_document_mapping_def store_and_create_document_def example_request_def
          example_create_env_def example_upload_def Let_def)
  have e: "input_company_name (example_request\<lparr>input_company_name := Some []\<rparr>) = Some []"
    by simp
  have r1: "\<exists>failure. create_document_analysis_job example_create_env example_session
          (example_request\<lparr>input_company_name := Some []\<rparr>)
            = (Inl (Validation failure), example_session)"
    using create_input_validation[of "example_request\<lparr>input_company_name := Some []\<rparr>"
            example_create_env example_session] e by blast
  have "input_contrato_social (example_request\<lparr>input_cartao_cnpj := None\<rparr>) = None
      \<and> input_cartao_cnpj (example_request\<lparr>input_cartao_cnpj := None\<rparr>) = None
      \<and> input_certidao_negativa (example_request\<lparr>input_cartao_cnpj := None\<rparr>) = None"
    by (simp add: example_request_def)
  then have r2: "\<exists>failure. create_document_analysis_job example_create_env example_session
          (example_request\<lparr>input_cartao_cnpj := None\<rparr>)
            = (Inl (Validation failure), example_session)"
    using create_input_validation[of "example_request\<lparr>input_cartao_cnpj := None\<rparr>"
            example_create_env example_session] by blast
  show ?thesis using n(1,3) v r e r1 r2 by blast
qed

end
